theory Spec2Isabelle
  imports Complex_Main
begin

section \<open>The index space\<close>

text \<open>
  The development embeds the three-dimensional configuration of the FFT engines
  (\<^verbatim>\<open>AMREX_SPACEDIM == 3\<close>): \<^verbatim>\<open>AMREX_D_DECL(a,b,c)\<close> is the triple \<open>(a,b,c)\<close>, the
  sections under \<^verbatim>\<open>#if (AMREX_SPACEDIM >= 2)\<close> and \<^verbatim>\<open>#if (AMREX_SPACEDIM == 3)\<close> are
  present. The vendor back end is a parameter (\<open>USE_SYCL\<close>, \<open>USE_GPU\<close> below).
  Integers are unbounded: an engine allocates one element per cell of its domain, so
  the cell counts the engines compute stay far below the range of \<^verbatim>\<open>Long\<close>.
  In \<open>scalingFactor\<close> the quotient of the element type \<^verbatim>\<open>T\<close> (float or double) is
  idealised as a quotient of \<^typ>\<open>real\<close>; the callback of the Poisson solver is embedded
  over the arithmetic of \<^verbatim>\<open>T\<close> as a parameter.
\<close>

definition AMREX_SPACEDIM :: nat where
  "AMREX_SPACEDIM = 3"

type_synonym IntVect = "int \<times> int \<times> int"

text \<open>Component \<open>d\<close> of a three-element array (\<^verbatim>\<open>v[d]\<close>, \<open>d < 3\<close>).\<close>

fun at3 :: "'a \<times> 'a \<times> 'a \<Rightarrow> nat \<Rightarrow> 'a" where
  "at3 (a, b, c) d = (if d = 0 then a else if d = 1 then b else c)"

fun set3 :: "'a \<times> 'a \<times> 'a \<Rightarrow> nat \<Rightarrow> 'a \<Rightarrow> 'a \<times> 'a \<times> 'a" where
  "set3 (a, b, c) d v = (if d = 0 then (v, b, c) else if d = 1 then (a, v, c) else (a, b, v))"

datatype CellIndex = CELL | NODE

text \<open>
  Modelled from the spec: the class \<^verbatim>\<open>Box\<close> is not among the sources. An index box is the
  closed integer hyper-rectangle \<open>[smallend, bigend]\<close>, with the index type of each axis;
  \<^verbatim>\<open>length(d)\<close> is the number of cells along axis \<open>d\<close>, \<^verbatim>\<open>numPts()\<close> the number of cells.
\<close>

record Box =
  smallend :: IntVect
  bigend :: IntVect
  btype :: "CellIndex \<times> CellIndex \<times> CellIndex"

definition mkBox :: "IntVect \<Rightarrow> IntVect \<Rightarrow> Box" where
  "mkBox lo hi = \<lparr>smallend = lo, bigend = hi, btype = (CELL, CELL, CELL)\<rparr>"

text \<open>The default-constructed box is the empty cell-centred box \<open>[1, 0]\<close>.\<close>

definition Box_default :: Box where
  "Box_default = mkBox (1, 1, 1) (0, 0, 0)"

definition smallEnd :: "Box \<Rightarrow> nat \<Rightarrow> int" where
  "smallEnd b d = at3 (smallend b) d"

definition bigEnd :: "Box \<Rightarrow> nat \<Rightarrow> int" where
  "bigEnd b d = at3 (bigend b) d"

definition length_box :: "Box \<Rightarrow> nat \<Rightarrow> int" where
  "length_box b d = bigEnd b d - smallEnd b d + 1"

definition setBig :: "Box \<Rightarrow> nat \<Rightarrow> int \<Rightarrow> Box" where
  "setBig b d v = b\<lparr>bigend := set3 (bigend b) d v\<rparr>"

definition cellCentered :: "Box \<Rightarrow> bool" where
  "cellCentered b = (btype b = (CELL, CELL, CELL))"

definition numPts :: "Box \<Rightarrow> int" where
  "numPts b = length_box b 0 * length_box b 1 * length_box b 2"

text \<open>\<^verbatim>\<open>Box::ok()\<close>: no axis is empty (the spec's invariant \<open>lo \<le> hi\<close>).\<close>

definition ok_box :: "Box \<Rightarrow> bool" where
  "ok_box b = (smallEnd b 0 \<le> bigEnd b 0 \<and> smallEnd b 1 \<le> bigEnd b 1 \<and> smallEnd b 2 \<le> bigEnd b 2)"

subsection \<open>Distributed arrays\<close>

text \<open>
  Modelled from the spec: the distributed-array classes are not among the sources. A
  \<^verbatim>\<open>FabArray\<close> is known by its \<^verbatim>\<open>BoxArray\<close> (the ordered boxes) and its
  \<^verbatim>\<open>DistributionMapping\<close> (the rank of each box); an array that was never defined has
  neither. \<^verbatim>\<open>detail::get_fab\<close> returns the box this rank owns under the iota rank map
  (box \<open>i\<close> on rank \<open>i\<close>), or nothing when the rank owns none.
\<close>

record FabArray =
  boxArray :: "Box list"
  DistributionMap :: "nat list"

definition FabArray_default :: FabArray where
  "FabArray_default = \<lparr>boxArray = [], DistributionMap = []\<rparr>"

definition define_fa :: "Box list \<Rightarrow> nat list \<Rightarrow> FabArray" where
  "define_fa ba dm = \<lparr>boxArray = ba, DistributionMap = dm\<rparr>"

definition empty_fa :: "FabArray \<Rightarrow> bool" where
  "empty_fa fa = (boxArray fa = [])"

definition size_fa :: "FabArray \<Rightarrow> nat" where
  "size_fa fa = length (boxArray fa)"

text \<open>\<^verbatim>\<open>detail::make_iota_distromap\<close>, ranks counted within the sub-communicator.\<close>

definition make_iota_distromap :: "nat \<Rightarrow> nat list" where
  "make_iota_distromap n = [0..<n]"

subsection \<open>The environment of an engine\<close>

text \<open>
  What the code reads from outside: the rank and the number of ranks of the
  sub-communicator (\<^verbatim>\<open>ParallelContext\<close>), the vendor back end chosen at build time, and
  \<^verbatim>\<open>amrex::decompose\<close>, which is not among the sources and is a parameter here
  (in its flag triple \<open>False\<close> marks an axis that is kept whole).
\<close>

record Env =
  MyProcSub :: nat
  NProcsSub :: nat
  USE_SYCL :: bool
  USE_GPU :: bool
  decompose :: "Box \<Rightarrow> nat \<Rightarrow> bool \<times> bool \<times> bool \<Rightarrow> Box list"

definition get_fab :: "Env \<Rightarrow> FabArray \<Rightarrow> Box option" where
  "get_fab env fa =
     (if MyProcSub env < size_fa fa then Some (boxArray fa ! MyProcSub env) else None)"

subsection \<open>Errors and vendor plans\<close>

text \<open>
  Every failure of the code is a fatal abort. The kinds follow the spec's error list:
  a failed \<^verbatim>\<open>AMREX_ALWAYS_ASSERT\<close> on the shape of a domain is \<open>InvalidDomain\<close>, on a
  boundary pair \<open>InvalidBoundary\<close>, on the periodicity flags of a geometry
  \<open>InvalidGeometry\<close>; \<^verbatim>\<open>amrex::Abort(msg)\<close> is \<open>Abort msg\<close>.
\<close>

datatype error = InvalidDomain | InvalidBoundary | InvalidGeometry | Abort string

datatype Boundary = periodic | even_bc | odd_bc

datatype Direction = forward | backward | both

type_synonym BCs = "(Boundary \<times> Boundary) \<times> (Boundary \<times> Boundary) \<times> (Boundary \<times> Boundary)"

text \<open>
  Modelled from the spec: the class \<^verbatim>\<open>Plan\<close> is not among the sources. A plan is an opaque
  vendor handle, absent (\<open>None\<close>) until one of the \<^verbatim>\<open>init_*\<close> functions creates it; the
  vendor hands out a handle that is not in use, here the next number of a counter that
  is threaded through construction. \<^verbatim>\<open>destroy()\<close> releases the handle of a plan that has
  one; its value is the list of handles released.
\<close>

type_synonym VendorPlan = nat

type_synonym Plan = "VendorPlan option"

definition init_plan :: "VendorPlan \<Rightarrow> Plan \<times> VendorPlan" where
  "init_plan h = (Some h, Suc h)"

definition destroy :: "Plan \<Rightarrow> VendorPlan list" where
  "destroy p = (case p of None \<Rightarrow> [] | Some h \<Rightarrow> [h])"

text \<open>
  The local initialisation pattern of a forward and a backward plan. \<open>share\<close> is the case
  \<^verbatim>\<open>bwd = fwd\<close> (one handle for both directions); otherwise the forward plan is created
  when \<open>mk_fwd\<close> and then the backward plan when \<open>mk_bwd\<close>, each with a handle of its own.
\<close>

definition init_fwd_bwd :: "bool \<Rightarrow> bool \<Rightarrow> bool \<Rightarrow> VendorPlan \<Rightarrow> Plan \<times> Plan \<times> VendorPlan" where
  "init_fwd_bwd share mk_fwd mk_bwd h =
     (if share then (let (f, h1) = init_plan h in (f, f, h1))
      else (let (f, h1) = (if mk_fwd then init_plan h else (None, h));
                (b, h2) = (if mk_bwd then init_plan h1 else (None, h1))
            in (f, b, h2)))"

text \<open>The members that \<^verbatim>\<open>R2C\<close> and \<^verbatim>\<open>R2X\<close> both declare.\<close>

record FFT_members =
  m_fft_fwd_x :: Plan
  m_fft_bwd_x :: Plan
  m_fft_fwd_y :: Plan
  m_fft_bwd_y :: Plan
  m_fft_fwd_z :: Plan
  m_fft_bwd_z :: Plan
  m_rx :: FabArray
  m_cx :: FabArray
  m_cy :: FabArray
  m_cz :: FabArray

section \<open>The engine R2X\<close>

text \<open>
  The communication meta-data and the two shared raw buffers of the class hold nothing
  that the functions embedded below read; they are left out of the record.
\<close>

record R2X = FFT_members +
  m_dom_0 :: Box
  m_bc :: BCs
  m_ry :: FabArray
  m_rz :: FabArray
  m_dom_rx :: Box
  m_dom_ry :: Box
  m_dom_rz :: Box
  m_dom_cx :: Box
  m_dom_cy :: Box
  m_dom_cz :: Box

text \<open>The assertions of the loop over the axes, lines 105 to 111.\<close>

fun R2X_axis_checks :: "Box \<Rightarrow> BCs \<Rightarrow> nat list \<Rightarrow> error option" where
  "R2X_axis_checks domain bc [] = None"
| "R2X_axis_checks domain bc (idim # rest) =
     (if \<not> length_box domain idim > 1 then Some InvalidDomain
      else if fst (at3 bc idim) = periodic \<or> snd (at3 bc idim) = periodic
      then (if fst (at3 bc idim) = snd (at3 bc idim)
            then R2X_axis_checks domain bc rest else Some InvalidBoundary)
      else R2X_axis_checks domain bc rest)"

definition R2X_checks :: "Box \<Rightarrow> BCs \<Rightarrow> error option" where
  "R2X_checks domain bc =
     (if \<not> (smallend domain = (0, 0, 0) \<and> length_box domain 0 > 1 \<and> cellCentered domain)
      then Some InvalidDomain
      else if \<not> (length_box domain 1 > 1 \<or> length_box domain 2 = 1) then Some InvalidDomain
      else R2X_axis_checks domain bc [0..<AMREX_SPACEDIM])"

text \<open>The members as the member initialisers leave them.\<close>

definition R2X_members :: "Box \<Rightarrow> BCs \<Rightarrow> R2X" where
  "R2X_members domain bc =
     \<lparr>m_fft_fwd_x = None, m_fft_bwd_x = None, m_fft_fwd_y = None, m_fft_bwd_y = None,
      m_fft_fwd_z = None, m_fft_bwd_z = None,
      m_rx = FabArray_default, m_cx = FabArray_default, m_cy = FabArray_default,
      m_cz = FabArray_default,
      m_dom_0 = domain, m_bc = bc, m_ry = FabArray_default, m_rz = FabArray_default,
      m_dom_rx = Box_default, m_dom_ry = Box_default, m_dom_rz = Box_default,
      m_dom_cx = Box_default, m_dom_cy = Box_default, m_dom_cz = Box_default\<rparr>"

text \<open>
  ``make data containers''. The lengths halved are those of a domain that passed the
  checks, so they are positive and C++'s division is \<open>div\<close>.
\<close>

definition shared_or_iota :: "Box list \<Rightarrow> FabArray \<Rightarrow> nat list" where
  "shared_or_iota ba fa =
     (if length ba = size_fa fa then DistributionMap fa else make_iota_distromap (length ba))"

definition R2X_make_x :: "Env \<Rightarrow> Box \<Rightarrow> BCs \<Rightarrow> R2X \<Rightarrow> R2X" where
  "R2X_make_x env domain bc e =
     (let bax = decompose env (m_dom_0 e) (NProcsSub env) (False, True, True);
          dmx = make_iota_distromap (length bax);
          e1 = e\<lparr>m_dom_rx := m_dom_0 e, m_rx := define_fa bax dmx\<rparr>
      in if fst (at3 bc 0) = periodic
         then (let dcx = mkBox (0, 0, 0)
                           (length_box domain 0 div 2, bigEnd domain 1, bigEnd domain 2)
               in e1\<lparr>m_dom_cx := dcx,
                     m_cx := define_fa (map (\<lambda>b. setBig b 0 (bigEnd dcx 0)) bax) dmx\<rparr>)
         else e1)"

definition R2X_make_y :: "Env \<Rightarrow> Box \<Rightarrow> BCs \<Rightarrow> R2X \<Rightarrow> R2X" where
  "R2X_make_y env domain bc e =
     (if length_box domain 1 > 1
      then (if \<not> empty_fa (m_cx e)
            then (let dcy = mkBox (0, 0, 0) (bigEnd (m_dom_cx e) 1, bigEnd (m_dom_cx e) 0,
                                            bigEnd (m_dom_cx e) 2);
                      ba = decompose env dcy (NProcsSub env) (False, True, True);
                      dm = shared_or_iota ba (m_cx e)
                  in e\<lparr>m_dom_cy := dcy, m_cy := define_fa ba dm\<rparr>)
            else (let dry = mkBox (0, 0, 0) (bigEnd (m_dom_rx e) 1, bigEnd (m_dom_rx e) 0,
                                            bigEnd (m_dom_rx e) 2);
                      ba = decompose env dry (NProcsSub env) (False, True, True);
                      dm = shared_or_iota ba (m_rx e);
                      e1 = e\<lparr>m_dom_ry := dry, m_ry := define_fa ba dm\<rparr>
                  in if fst (at3 bc 1) = periodic
                     then (let dcy = mkBox (0, 0, 0)
                                       (length_box dry 0 div 2, bigEnd dry 1, bigEnd dry 2)
                           in e1\<lparr>m_dom_cy := dcy,
                                 m_cy := define_fa (map (\<lambda>b. setBig b 0 (bigEnd dcy 0)) ba) dm\<rparr>)
                     else e1))
      else e)"

definition R2X_make_z :: "Env \<Rightarrow> Box \<Rightarrow> BCs \<Rightarrow> R2X \<Rightarrow> R2X" where
  "R2X_make_z env domain bc e =
     (if length_box domain 2 > 1
      then (if \<not> empty_fa (m_cy e)
            then (let dcz = mkBox (0, 0, 0) (bigEnd (m_dom_cy e) 2, bigEnd (m_dom_cy e) 1,
                                            bigEnd (m_dom_cy e) 0);
                      ba = decompose env dcz (NProcsSub env) (False, True, True);
                      dm = shared_or_iota ba (m_cy e)
                  in e\<lparr>m_dom_cz := dcz, m_cz := define_fa ba dm\<rparr>)
            else (let drz = mkBox (0, 0, 0) (bigEnd (m_dom_ry e) 2, bigEnd (m_dom_ry e) 1,
                                            bigEnd (m_dom_ry e) 0);
                      ba = decompose env drz (NProcsSub env) (False, True, True);
                      dm = shared_or_iota ba (m_ry e);
                      e1 = e\<lparr>m_dom_rz := drz, m_rz := define_fa ba dm\<rparr>
                  in if fst (at3 bc 2) = periodic
                     then (let dcz = mkBox (0, 0, 0)
                                       (length_box drz 0 div 2, bigEnd drz 1, bigEnd drz 2)
                           in e1\<lparr>m_dom_cz := dcz,
                                 m_cz := define_fa (map (\<lambda>b. setBig b 0 (bigEnd dcz 0)) ba) dm\<rparr>)
                     else e1))
      else e)"

text \<open>
  ``make plans''. A periodic axis takes an r2c or a c2c plan, whose two directions share
  one handle under SYCL; any other axis takes an r2r plan, whose two directions share one
  handle on a GPU when the boundary pair is even-odd or odd-even.
\<close>

definition mixed_parity :: "Boundary \<times> Boundary \<Rightarrow> bool" where
  "mixed_parity b = ((fst b = even_bc \<and> snd b = odd_bc) \<or> (fst b = odd_bc \<and> snd b = even_bc))"

definition R2X_plans_x :: "Env \<Rightarrow> BCs \<Rightarrow> R2X \<Rightarrow> VendorPlan \<Rightarrow> R2X \<times> VendorPlan" where
  "R2X_plans_x env bc e h =
     (if MyProcSub env < size_fa (m_rx e)
      then (let (f, b, h') =
                  (if fst (at3 bc 0) = periodic then init_fwd_bwd (USE_SYCL env) True True h
                   else init_fwd_bwd (USE_GPU env \<and> mixed_parity (at3 bc 0)) True True h)
            in (e\<lparr>m_fft_fwd_x := f, m_fft_bwd_x := b\<rparr>, h'))
      else (e, h))"

text \<open>
  The four cases of the y axis, in the order of the source: c2c on \<open>m_cy\<close>, r2c from
  \<open>m_ry\<close> to \<open>m_cy\<close>, r2r on \<open>m_cy\<close>, r2r on \<open>m_ry\<close>. Each one creates its plans when this
  rank is below the size of the array named first.
\<close>

definition R2X_plans_y :: "Env \<Rightarrow> BCs \<Rightarrow> R2X \<Rightarrow> VendorPlan \<Rightarrow> R2X \<times> VendorPlan" where
  "R2X_plans_y env bc e h =
     (let (n, share) =
            (if empty_fa (m_ry e) \<and> fst (at3 (m_bc e) 1) = periodic
             then (size_fa (m_cy e), USE_SYCL env)
             else if \<not> empty_fa (m_ry e) \<and> fst (at3 (m_bc e) 1) = periodic
             then (size_fa (m_ry e), USE_SYCL env)
             else if \<not> empty_fa (m_cy e)
             then (size_fa (m_cy e), USE_GPU env \<and> mixed_parity (at3 bc 1))
             else (size_fa (m_ry e), USE_GPU env \<and> mixed_parity (at3 bc 1)))
      in if MyProcSub env < n
         then (let (f, b, h') = init_fwd_bwd share True True h
               in (e\<lparr>m_fft_fwd_y := f, m_fft_bwd_y := b\<rparr>, h'))
         else (e, h))"

definition R2X_plans_z :: "Env \<Rightarrow> BCs \<Rightarrow> R2X \<Rightarrow> VendorPlan \<Rightarrow> R2X \<times> VendorPlan" where
  "R2X_plans_z env bc e h =
     (let (n, share) =
            (if empty_fa (m_rz e) \<and> fst (at3 (m_bc e) 2) = periodic
             then (size_fa (m_cz e), USE_SYCL env)
             else if \<not> empty_fa (m_rz e) \<and> fst (at3 (m_bc e) 2) = periodic
             then (size_fa (m_rz e), USE_SYCL env)
             else if \<not> empty_fa (m_cz e)
             then (size_fa (m_cz e), USE_GPU env \<and> mixed_parity (at3 bc 2))
             else (size_fa (m_rz e), USE_GPU env \<and> mixed_parity (at3 bc 2)))
      in if MyProcSub env < n
         then (let (f, b, h') = init_fwd_bwd share True True h
               in (e\<lparr>m_fft_fwd_z := f, m_fft_bwd_z := b\<rparr>, h'))
         else (e, h))"

text \<open>
  The constructor: the engine and the next free vendor handle, or the failed assertion.
\<close>

definition R2X_ctor :: "Env \<Rightarrow> Box \<Rightarrow> BCs \<Rightarrow> VendorPlan \<Rightarrow> error + (R2X \<times> VendorPlan)" where
  "R2X_ctor env domain bc h =
     (case R2X_checks domain bc of
        Some err \<Rightarrow> Inl err
      | None \<Rightarrow>
          (let e = R2X_make_z env domain bc
                     (R2X_make_y env domain bc
                       (R2X_make_x env domain bc (R2X_members domain bc)));
               (ex, hx) = R2X_plans_x env bc e h;
               (ey, hy) = R2X_plans_y env bc ex hx;
               (ez, hz) = R2X_plans_z env bc ey hy
           in Inr (ez, hz)))"

text \<open>
  The destructor, the same text in \<^verbatim>\<open>R2C\<close> and \<^verbatim>\<open>R2X\<close>: the vendor handles released,
  in the order of the calls.
\<close>

definition dtor :: "'a FFT_members_scheme \<Rightarrow> VendorPlan list" where
  "dtor e =
     (if m_fft_bwd_x e \<noteq> m_fft_fwd_x e then destroy (m_fft_bwd_x e) else []) @
     (if m_fft_bwd_y e \<noteq> m_fft_fwd_y e then destroy (m_fft_bwd_y e) else []) @
     (if m_fft_bwd_z e \<noteq> m_fft_fwd_z e then destroy (m_fft_bwd_z e) else []) @
     destroy (m_fft_fwd_x e) @ destroy (m_fft_fwd_y e) @ destroy (m_fft_fwd_z e)"

text \<open>The handles an engine holds.\<close>

definition held_plans :: "'a FFT_members_scheme \<Rightarrow> VendorPlan set" where
  "held_plans e =
     set_option (m_fft_fwd_x e) \<union> set_option (m_fft_bwd_x e) \<union>
     set_option (m_fft_fwd_y e) \<union> set_option (m_fft_bwd_y e) \<union>
     set_option (m_fft_fwd_z e) \<union> set_option (m_fft_bwd_z e)"

definition R2X_scalingFactor :: "R2X \<Rightarrow> real" where
  "R2X_scalingFactor e =
     (let r = fold (\<lambda>idim r. if fst (at3 (m_bc e) idim) \<noteq> periodic \<and> length_box (m_dom_0 e) idim > 1
                             then r * 2 else r)
                   [0..<AMREX_SPACEDIM] (numPts (m_dom_0 e))
      in 1 / real_of_int r)"

section \<open>The engine R2C\<close>

record Info =
  batch_mode :: bool

text \<open>
  Of the communication meta-data only its presence is read (\<^verbatim>\<open>if (m_cmd_x2y)\<close>), so each
  pointer is the flag that says whether it was made. The template parameter \<^verbatim>\<open>D\<close> is an
  argument of the constructor.
\<close>

record R2C = FFT_members +
  m_cmd_x2y :: bool
  m_cmd_y2x :: bool
  m_cmd_y2z :: bool
  m_cmd_z2y :: bool
  m_real_domain :: Box
  m_spectral_domain_x :: Box
  m_spectral_domain_y :: Box
  m_spectral_domain_z :: Box
  m_info :: Info

definition R2C_checks :: "Box \<Rightarrow> Info \<Rightarrow> error option" where
  "R2C_checks domain info =
     (if \<not> (smallend domain = (0, 0, 0) \<and> length_box domain 0 > 1 \<and> cellCentered domain)
      then Some InvalidDomain
      else if \<not> (length_box domain 2 > 1 \<or> \<not> batch_mode info) then Some InvalidDomain
      else if \<not> (length_box domain 1 > 1 \<or> length_box domain 2 = 1) then Some InvalidDomain
      else None)"

text \<open>
  The member initialisers; the length halved is positive once the checks have passed.
\<close>

definition R2C_members :: "Box \<Rightarrow> Info \<Rightarrow> R2C" where
  "R2C_members domain info =
     \<lparr>m_fft_fwd_x = None, m_fft_bwd_x = None, m_fft_fwd_y = None, m_fft_bwd_y = None,
      m_fft_fwd_z = None, m_fft_bwd_z = None,
      m_rx = FabArray_default, m_cx = FabArray_default, m_cy = FabArray_default,
      m_cz = FabArray_default,
      m_cmd_x2y = False, m_cmd_y2x = False, m_cmd_y2z = False, m_cmd_z2y = False,
      m_real_domain = domain,
      m_spectral_domain_x =
        mkBox (0, 0, 0) (length_box domain 0 div 2, bigEnd domain 1, bigEnd domain 2),
      m_spectral_domain_y =
        mkBox (0, 0, 0) (bigEnd domain 1, length_box domain 0 div 2, bigEnd domain 2),
      m_spectral_domain_z =
        mkBox (0, 0, 0) (bigEnd domain 2, length_box domain 0 div 2, bigEnd domain 1),
      m_info = info\<rparr>"

text \<open>``make data containers''.\<close>

definition R2C_make_containers :: "Env \<Rightarrow> R2C \<Rightarrow> R2C" where
  "R2C_make_containers env e =
     (let bax = decompose env (m_real_domain e) (NProcsSub env) (False, True, True);
          dmx = make_iota_distromap (length bax);
          e1 = e\<lparr>m_rx := define_fa bax dmx,
                 m_cx := define_fa (map (\<lambda>b. setBig b 0 (bigEnd (m_spectral_domain_x e) 0)) bax) dmx\<rparr>;
          (e2, cdmy) =
            (if length_box (m_real_domain e) 1 > 1
             then (let cbay = decompose env (m_spectral_domain_y e) (NProcsSub env)
                                (False, True, True);
                       cdmy = (if length cbay = length dmx then dmx
                               else make_iota_distromap (length cbay))
                   in (e1\<lparr>m_cy := define_fa cbay cdmy\<rparr>, cdmy))
             else (e1, []))
      in if length_box (m_real_domain e) 1 > 1 \<and>
            (\<not> batch_mode (m_info e) \<and> length_box (m_real_domain e) 2 > 1)
         then (let cbaz = decompose env (m_spectral_domain_z e) (NProcsSub env) (False, True, True);
                   cdmz = (if length cbaz = length dmx then dmx
                           else if length cbaz = length cdmy then cdmy
                           else make_iota_distromap (length cbaz))
               in e2\<lparr>m_cz := define_fa cbaz cdmz\<rparr>)
         else e2)"

text \<open>``make copiers''.\<close>

definition R2C_make_copiers :: "R2C \<Rightarrow> R2C" where
  "R2C_make_copiers e =
     (let e1 = (if \<not> empty_fa (m_cy e) then e\<lparr>m_cmd_x2y := True, m_cmd_y2x := True\<rparr> else e)
      in if \<not> empty_fa (m_cz e1) then e1\<lparr>m_cmd_y2z := True, m_cmd_z2y := True\<rparr> else e1)"

text \<open>``make plans''.\<close>

definition R2C_plans_x :: "Env \<Rightarrow> Direction \<Rightarrow> R2C \<Rightarrow> VendorPlan \<Rightarrow> R2C \<times> VendorPlan" where
  "R2C_plans_x env D e h =
     (if MyProcSub env < size_fa (m_rx e)
      then (let (f, b, h') = init_fwd_bwd (USE_SYCL env) (D = both \<or> D = forward)
                               (D = both \<or> D = backward) h
            in (e\<lparr>m_fft_fwd_x := f, m_fft_bwd_x := b\<rparr>, h'))
      else (e, h))"

definition make_c2c_plans :: "Env \<Rightarrow> Direction \<Rightarrow> FabArray \<Rightarrow> VendorPlan \<Rightarrow> Plan \<times> Plan \<times> VendorPlan" where
  "make_c2c_plans env D inout h =
     (case get_fab env inout of
        None \<Rightarrow> (None, None, h)
      | Some box \<Rightarrow> init_fwd_bwd (USE_SYCL env) (D = both \<or> D = forward)
                     (D = both \<or> D = backward) h)"

definition R2C_plans_y :: "Env \<Rightarrow> Direction \<Rightarrow> R2C \<Rightarrow> VendorPlan \<Rightarrow> R2C \<times> VendorPlan" where
  "R2C_plans_y env D e h =
     (if \<not> empty_fa (m_cy e)
      then (let (f, b, h') = make_c2c_plans env D (m_cy e) h
            in (e\<lparr>m_fft_fwd_y := f, m_fft_bwd_y := b\<rparr>, h'))
      else (e, h))"

definition R2C_plans_z :: "Env \<Rightarrow> Direction \<Rightarrow> R2C \<Rightarrow> VendorPlan \<Rightarrow> R2C \<times> VendorPlan" where
  "R2C_plans_z env D e h =
     (if \<not> empty_fa (m_cz e)
      then (let (f, b, h') = make_c2c_plans env D (m_cz e) h
            in (e\<lparr>m_fft_fwd_z := f, m_fft_bwd_z := b\<rparr>, h'))
      else (e, h))"

definition R2C_ctor :: "Env \<Rightarrow> Direction \<Rightarrow> Box \<Rightarrow> Info \<Rightarrow> VendorPlan \<Rightarrow> error + (R2C \<times> VendorPlan)" where
  "R2C_ctor env D domain info h =
     (case R2C_checks domain info of
        Some err \<Rightarrow> Inl err
      | None \<Rightarrow>
          (let e = R2C_make_copiers (R2C_make_containers env (R2C_members domain info));
               (ex, hx) = R2C_plans_x env D e h;
               (ey, hy) = R2C_plans_y env D ex hx;
               (ez, hz) = R2C_plans_z env D ey hy
           in Inr (ez, hz)))"

subsection \<open>Running a transform\<close>

text \<open>
  The numerical kernels and the redistribution belong to the vendor library and to the
  distributed-array layer. A run of the engine is the sequence of the calls it makes on
  them, and of the calls of the user's post-forward function: \<open>Callback args a cell\<close> is
  the call \<^verbatim>\<open>post_forward(i, j, k, a(cell))\<close> with \<open>args = (i, j, k)\<close>, which hands over
  a reference to element \<open>cell\<close> of the local part of array \<open>a\<close>.
\<close>

datatype fab_name = RX | RY | RZ | CX | CY | CZ

datatype event =
    CopyIn fab_name
  | CopyOut fab_name
  | Compute_r2c Direction Plan
  | Compute_c2c Direction Plan
  | Compute_r2r Direction Plan
  | ParallelCopy fab_name fab_name
  | Callback IntVect fab_name IntVect

text \<open>
  Modelled from the spec: \<^verbatim>\<open>ParallelFor(box, f)\<close> is not among the sources. It calls \<open>f\<close>
  on every cell of the box; the order taken here is that of the host loop nest
  (\<open>k\<close> outermost, \<open>i\<close> innermost).
\<close>

definition cells :: "Box \<Rightarrow> IntVect list" where
  "cells bx = [(i, j, k). k \<leftarrow> [smallEnd bx 2..bigEnd bx 2], j \<leftarrow> [smallEnd bx 1..bigEnd bx 1],
                         i \<leftarrow> [smallEnd bx 0..bigEnd bx 0]]"

definition ParallelFor :: "Box \<Rightarrow> (int \<Rightarrow> int \<Rightarrow> int \<Rightarrow> 'e) \<Rightarrow> 'e list" where
  "ParallelFor bx f = map (\<lambda>(i, j, k). f i j k) (cells bx)"

definition R2C_forward :: "R2C \<Rightarrow> event list" where
  "R2C_forward e =
     [CopyIn RX, Compute_r2c forward (m_fft_fwd_x e)] @
     (if m_cmd_x2y e then [ParallelCopy CY CX] else []) @
     [Compute_c2c forward (m_fft_fwd_y e)] @
     (if m_cmd_y2z e then [ParallelCopy CZ CY] else []) @
     [Compute_c2c forward (m_fft_fwd_z e)]"

definition R2C_backward_doit :: "R2C \<Rightarrow> event list" where
  "R2C_backward_doit e =
     [Compute_c2c backward (m_fft_bwd_z e)] @
     (if m_cmd_z2y e then [ParallelCopy CY CZ] else []) @
     [Compute_c2c backward (m_fft_bwd_y e)] @
     (if m_cmd_y2x e then [ParallelCopy CX CY] else []) @
     [Compute_r2c backward (m_fft_bwd_x e), CopyOut RX]"

definition R2C_post_forward_doit :: "Env \<Rightarrow> R2C \<Rightarrow> error + event list" where
  "R2C_post_forward_doit env e =
     (if batch_mode (m_info e) then Inl (Abort ''xxxxx todo: post_forward'')
      else if \<not> empty_fa (m_cz e)
      then (case get_fab env (m_cz e) of
              None \<Rightarrow> Inr []
            | Some box \<Rightarrow> Inr (ParallelFor box (\<lambda>iz jx ky. Callback (jx, ky, iz) CZ (iz, jx, ky))))
      else if \<not> empty_fa (m_cy e)
      then (case get_fab env (m_cy e) of
              None \<Rightarrow> Inr []
            | Some box \<Rightarrow> Inr (ParallelFor box (\<lambda>iy jx k. Callback (jx, iy, k) CY (iy, jx, k))))
      else (case get_fab env (m_cx e) of
              None \<Rightarrow> Inr []
            | Some box \<Rightarrow> Inr (ParallelFor box (\<lambda>i j k. Callback (i, j, k) CX (i, j, k)))))"

text \<open>
  \<^verbatim>\<open>forwardThenBackward\<close> (instantiated for \<^verbatim>\<open>Direction::both\<close> only): the calls made, and
  the abort that ended the run if there was one.
\<close>

definition R2C_forwardThenBackward :: "Env \<Rightarrow> R2C \<Rightarrow> event list \<times> error option" where
  "R2C_forwardThenBackward env e =
     (case R2C_post_forward_doit env e of
        Inl err \<Rightarrow> (R2C_forward e, Some err)
      | Inr calls \<Rightarrow> (R2C_forward e @ calls @ R2C_backward_doit e, None))"

text \<open>\<^verbatim>\<open>std::swap(v[i], v[j])\<close> on an index vector.\<close>

definition swap3 :: "IntVect \<Rightarrow> nat \<Rightarrow> nat \<Rightarrow> IntVect" where
  "swap3 v i j = set3 (set3 v i (at3 v j)) j (at3 v i)"

definition R2C_getSpectralDataLayout :: "R2C \<Rightarrow> Box list \<times> nat list" where
  "R2C_getSpectralDataLayout e =
     (if \<not> empty_fa (m_cz e)
      then (map (\<lambda>b. let lo = swap3 (swap3 (smallend b) 0 1) 1 2;
                          hi = swap3 (swap3 (bigend b) 0 1) 1 2
                      in b\<lparr>smallend := lo, bigend := hi\<rparr>) (boxArray (m_cz e)),
            DistributionMap (m_cz e))
      else if \<not> \<not> empty_fa (m_cy e)
      then (map (\<lambda>b. let lo = swap3 (smallend b) 0 1;
                          hi = swap3 (bigend b) 0 1
                      in b\<lparr>smallend := lo, bigend := hi\<rparr>) (boxArray (m_cy e)),
            DistributionMap (m_cy e))
      else (boxArray (m_cx e), DistributionMap (m_cx e)))"

text \<open>
  The post-forward block of \<^verbatim>\<open>R2X::forwardThenBackward\<close> (lines 553 to 585) with
  \<^verbatim>\<open>R2X::post_forward_doit<dim>\<close> (\<open>d\<close> is its template argument).
\<close>

definition R2X_post_forward_doit :: "nat \<Rightarrow> fab_name \<Rightarrow> Box option \<Rightarrow> event list" where
  "R2X_post_forward_doit d a fab =
     (case fab of
        None \<Rightarrow> []
      | Some box \<Rightarrow>
          ParallelFor box (\<lambda>i j k. if d = 0 then Callback (i, j, k) a (i, j, k)
                                    else if d = 1 then Callback (j, i, k) a (i, j, k)
                                    else Callback (j, k, i) a (i, j, k)))"

definition R2X_actual_dim :: "R2X \<Rightarrow> nat" where
  "R2X_actual_dim e =
     (let actual_dim = AMREX_SPACEDIM;
          actual_dim = (if length_box (m_dom_0 e) 1 = 1 then 1 else actual_dim)
      in if length_box (m_dom_0 e) 2 = 1 \<and> length_box (m_dom_0 e) 1 > 1 then 2 else actual_dim)"

definition R2X_post_forward :: "Env \<Rightarrow> R2X \<Rightarrow> event list" where
  "R2X_post_forward env e =
     (if R2X_actual_dim e = 1
      then (if empty_fa (m_cx e) then R2X_post_forward_doit 0 RX (get_fab env (m_rx e))
            else R2X_post_forward_doit 0 CX (get_fab env (m_cx e)))
      else if R2X_actual_dim e = 2
      then (if empty_fa (m_cy e) then R2X_post_forward_doit 1 RY (get_fab env (m_ry e))
            else R2X_post_forward_doit 1 CY (get_fab env (m_cy e)))
      else if R2X_actual_dim e = 3
      then (if empty_fa (m_cz e) then R2X_post_forward_doit 2 RZ (get_fab env (m_rz e))
            else R2X_post_forward_doit 2 CZ (get_fab env (m_cz e)))
      else [])"

section \<open>The Poisson solvers\<close>

text \<open>
  Modelled from the spec: the class \<^verbatim>\<open>Geometry\<close> is not among the sources. A geometry is
  a domain with the cell size and the periodicity flag of each axis.
\<close>

record Geometry =
  Domain_g :: Box
  CellSize :: "real \<times> real \<times> real"
  isPeriodic :: "bool \<times> bool \<times> bool"

text \<open>
  The members \<^verbatim>\<open>m_geom\<close> and \<^verbatim>\<open>m_bc\<close> of \<^verbatim>\<open>Poisson\<close> carry the suffix \<open>_p\<close>, the member
  \<^verbatim>\<open>m_geom\<close> of \<^verbatim>\<open>PoissonHybrid\<close> the suffix \<open>_h\<close>.
\<close>

record Poisson =
  m_geom_p :: Geometry
  m_bc_p :: BCs
  m_r2x :: R2X

definition Poisson_ctor :: "Env \<Rightarrow> Geometry \<Rightarrow> BCs \<Rightarrow> VendorPlan \<Rightarrow> error + (Poisson \<times> VendorPlan)" where
  "Poisson_ctor env geom bc h =
     (case R2X_ctor env (Domain_g geom) bc h of
        Inl err \<Rightarrow> Inl err
      | Inr (r, h') \<Rightarrow> Inr (\<lparr>m_geom_p = geom, m_bc_p = bc, m_r2x = r\<rparr>, h'))"

text \<open>
  The arithmetic of the element type \<^verbatim>\<open>T\<close> (float or double), as \<^verbatim>\<open>Poisson::solve\<close> uses
  it: rounding, infinities and NaN are whatever these operations make them. \<open>T_of_int n\<close>
  is \<^verbatim>\<open>T(n)\<close>, \<open>T_half\<close> is \<^verbatim>\<open>T(0.5)\<close>, \<open>T_pi\<close> is \<^verbatim>\<open>Math::pi<T>()\<close>, \<open>T_of_prod x y\<close> is
  \<^verbatim>\<open>T(x*y)\<close> for two cell sizes (their product is formed in \<^verbatim>\<open>amrex::Real\<close>), \<open>T_ne\<close> is
  the comparison \<^verbatim>\<open>!=\<close>; \<open>val_div\<close> and \<open>val_mul\<close> are \<^verbatim>\<open>/=\<close> and \<^verbatim>\<open>*=\<close> of the spectral datum,
  which is a \<^verbatim>\<open>T\<close> or a \<^verbatim>\<open>GpuComplex<T>\<close>.
\<close>

record ('t, 'v) Tops =
  T_of_int :: "int \<Rightarrow> 't"
  T_half :: 't
  T_pi :: 't
  T_of_prod :: "real \<Rightarrow> real \<Rightarrow> 't"
  T_add :: "'t \<Rightarrow> 't \<Rightarrow> 't"
  T_sub :: "'t \<Rightarrow> 't \<Rightarrow> 't"
  T_mul :: "'t \<Rightarrow> 't \<Rightarrow> 't"
  T_div :: "'t \<Rightarrow> 't \<Rightarrow> 't"
  T_cos :: "'t \<Rightarrow> 't"
  T_ne :: "'t \<Rightarrow> 't \<Rightarrow> bool"
  val_div :: "'v \<Rightarrow> 't \<Rightarrow> 'v"
  val_mul :: "'v \<Rightarrow> 't \<Rightarrow> 'v"

text \<open>\<^verbatim>\<open>R2X::scalingFactor\<close> with its quotient \<^verbatim>\<open>T(1)/T(r)\<close> taken in \<^verbatim>\<open>T\<close>.\<close>

definition R2X_scalingFactor_T :: "('t, 'v) Tops \<Rightarrow> R2X \<Rightarrow> 't" where
  "R2X_scalingFactor_T A e =
     (let r = fold (\<lambda>idim r. if fst (at3 (m_bc e) idim) \<noteq> periodic \<and> length_box (m_dom_0 e) idim > 1
                             then r * 2 else r)
                   [0..<AMREX_SPACEDIM] (numPts (m_dom_0 e))
      in T_div A (T_of_int A 1) (T_of_int A r))"

text \<open>The three arrays \<^verbatim>\<open>Poisson::solve\<close> prepares for its callback.\<close>

definition Poisson_fac :: "('t, 'v) Tops \<Rightarrow> Poisson \<Rightarrow> 't \<times> 't \<times> 't" where
  "Poisson_fac A p =
     fold (\<lambda>idim fac. if fst (at3 (m_bc_p p) idim) = periodic
                       then set3 fac idim (T_mul A (at3 fac idim) (T_of_int A 2)) else fac)
          [0..<AMREX_SPACEDIM]
          (T_div A (T_pi A) (T_of_int A (length_box (Domain_g (m_geom_p p)) 0)),
           T_div A (T_pi A) (T_of_int A (length_box (Domain_g (m_geom_p p)) 1)),
           T_div A (T_pi A) (T_of_int A (length_box (Domain_g (m_geom_p p)) 2)))"

definition Poisson_dxfac :: "('t, 'v) Tops \<Rightarrow> Poisson \<Rightarrow> 't \<times> 't \<times> 't" where
  "Poisson_dxfac A p =
     (T_div A (T_of_int A 2)
        (T_of_prod A (at3 (CellSize (m_geom_p p)) 0) (at3 (CellSize (m_geom_p p)) 0)),
      T_div A (T_of_int A 2)
        (T_of_prod A (at3 (CellSize (m_geom_p p)) 1) (at3 (CellSize (m_geom_p p)) 1)),
      T_div A (T_of_int A 2)
        (T_of_prod A (at3 (CellSize (m_geom_p p)) 2) (at3 (CellSize (m_geom_p p)) 2)))"

definition Poisson_offset :: "('t, 'v) Tops \<Rightarrow> Poisson \<Rightarrow> 't \<times> 't \<times> 't" where
  "Poisson_offset A p =
     fold (\<lambda>idim offset.
             if fst (at3 (m_bc_p p) idim) = odd_bc \<and> snd (at3 (m_bc_p p) idim) = odd_bc
             then set3 offset idim (T_of_int A 1)
             else if (fst (at3 (m_bc_p p) idim) = odd_bc \<and> snd (at3 (m_bc_p p) idim) = even_bc) \<or>
                     (fst (at3 (m_bc_p p) idim) = even_bc \<and> snd (at3 (m_bc_p p) idim) = odd_bc)
             then set3 offset idim (T_half A)
             else offset)
          [0..<AMREX_SPACEDIM] (T_of_int A 0, T_of_int A 0, T_of_int A 0)"

text \<open>
  The callback \<^verbatim>\<open>Poisson::solve\<close> hands to \<^verbatim>\<open>forwardThenBackward\<close>: the new value of the
  spectral datum it was given a reference to. The sum \<open>k2\<close> is formed from the left.
\<close>

definition Poisson_callback :: "('t, 'v) Tops \<Rightarrow> Poisson \<Rightarrow> int \<Rightarrow> int \<Rightarrow> int \<Rightarrow> 'v \<Rightarrow> 'v" where
  "Poisson_callback A p i j k spectral_data =
     (let fac = Poisson_fac A p; dxfac = Poisson_dxfac A p;
          scale = R2X_scalingFactor_T A (m_r2x p); offset = Poisson_offset A p;
          a = T_mul A (at3 fac 0) (T_add A (T_of_int A i) (at3 offset 0));
          b = T_mul A (at3 fac 1) (T_add A (T_of_int A j) (at3 offset 1));
          c = T_mul A (at3 fac 2) (T_add A (T_of_int A k) (at3 offset 2));
          k2 = T_add A (T_add A (T_mul A (at3 dxfac 0) (T_sub A (T_cos A a) (T_of_int A 1)))
                                (T_mul A (at3 dxfac 1) (T_sub A (T_cos A b) (T_of_int A 1))))
                       (T_mul A (at3 dxfac 2) (T_sub A (T_cos A c) (T_of_int A 1)));
          spectral_data = (if T_ne A k2 (T_of_int A 0) then val_div A spectral_data k2
                           else spectral_data)
      in val_mul A spectral_data scale)"

record PoissonHybrid =
  m_geom_h :: Geometry
  m_r2c :: R2C

definition PoissonHybrid_ctor :: "Env \<Rightarrow> Geometry \<Rightarrow> VendorPlan \<Rightarrow> error + (PoissonHybrid \<times> VendorPlan)" where
  "PoissonHybrid_ctor env geom h =
     (case R2C_ctor env both (Domain_g geom) \<lparr>batch_mode = True\<rparr> h of
        Inl err \<Rightarrow> Inl err
      | Inr (r, h') \<Rightarrow>
          if at3 (isPeriodic geom) 0 \<and> at3 (isPeriodic geom) 1
          then Inr (\<lparr>m_geom_h = geom, m_r2c = r\<rparr>, h')
          else Inl InvalidGeometry)"

text \<open>
  \<^verbatim>\<open>PoissonHybrid::solve\<close>, lines 143 to 146: the vector of the cell sizes along z, and
  the divisor of its tridiagonal coefficients
  \<^verbatim>\<open>2.0 / (delz[k] * (delz[k] + delz[k'])))\<close>.
\<close>

definition PoissonHybrid_delzv :: "PoissonHybrid \<Rightarrow> real list" where
  "PoissonHybrid_delzv p =
     replicate (nat (length_box (Domain_g (m_geom_h p)) 2)) (at3 (CellSize (m_geom_h p)) 2)"

definition tridiag_divisor :: "real list \<Rightarrow> nat \<Rightarrow> nat \<Rightarrow> real" where
  "tridiag_divisor delz k k' = delz ! k * (delz ! k + delz ! k')"

section \<open>The vocabulary of the specification\<close>

text \<open>An axis with exactly one periodic endpoint, and an axis that is not periodic.\<close>

definition one_periodic_end :: "Boundary \<times> Boundary \<Rightarrow> bool" where
  "one_periodic_end b = ((fst b = periodic) \<noteq> (snd b = periodic))"

definition nonperiodic_axis :: "Boundary \<times> Boundary \<Rightarrow> bool" where
  "nonperiodic_axis b = (b \<noteq> (periodic, periodic))"

text \<open>The index transforms, as the specification writes them.\<close>

definition Swap01 :: "IntVect \<Rightarrow> IntVect" where
  "Swap01 v = (case v of (i, j, k) \<Rightarrow> (j, i, k))"

definition RotateBackward :: "IntVect \<Rightarrow> IntVect" where
  "RotateBackward v = (case v of (i, j, k) \<Rightarrow> (j, k, i))"

definition unpermute_box :: "(IntVect \<Rightarrow> IntVect) \<Rightarrow> Box \<Rightarrow> Box" where
  "unpermute_box T b = b\<lparr>smallend := T (smallend b), bigend := T (bigend b)\<rparr>"

text \<open>\<^verbatim>\<open>Box::contains\<close>.\<close>

definition contains :: "Box \<Rightarrow> IntVect \<Rightarrow> bool" where
  "contains bx c = (case c of (i, j, k) \<Rightarrow>
     smallEnd bx 0 \<le> i \<and> i \<le> bigEnd bx 0 \<and> smallEnd bx 1 \<le> j \<and> j \<le> bigEnd bx 1 \<and>
     smallEnd bx 2 \<le> k \<and> k \<le> bigEnd bx 2)"

text \<open>
  The index triples with which the callback was called on element \<open>c\<close> of array \<open>a\<close>
  in a run.
\<close>

fun callback_on :: "fab_name \<Rightarrow> IntVect \<Rightarrow> event \<Rightarrow> IntVect option" where
  "callback_on a c (Callback args a' c') = (if a' = a \<and> c' = c then Some args else None)"
| "callback_on a c ev = None"

definition calls_on :: "fab_name \<Rightarrow> IntVect \<Rightarrow> event list \<Rightarrow> IntVect list" where
  "calls_on a c run = List.map_filter (callback_on a c) run"

fun is_Callback :: "event \<Rightarrow> bool" where
  "is_Callback (Callback args a c) = True"
| "is_Callback ev = False"

text \<open>The cells of the part of an array that this rank owns.\<close>

definition local_cell :: "Env \<Rightarrow> FabArray \<Rightarrow> IntVect \<Rightarrow> bool" where
  "local_cell env fa c = (case get_fab env fa of None \<Rightarrow> False | Some bx \<Rightarrow> contains bx c)"

text \<open>
  The spectral symbol of the Poisson solver in the specification's words: the shift
  \<open>\<delta>\<close> of a boundary pair, the factor of an axis of \<open>N\<close> cells, the eigenvalue \<open>\<lambda>\<close>.
\<close>

definition delta_spec :: "Boundary \<times> Boundary \<Rightarrow> real" where
  "delta_spec b =
     (if b = (periodic, periodic) \<or> b = (even_bc, even_bc) then 0
      else if b = (even_bc, odd_bc) \<or> b = (odd_bc, even_bc) then 1 / 2
      else if b = (odd_bc, odd_bc) then 1
      else 0)"

definition fac_spec :: "Boundary \<times> Boundary \<Rightarrow> int \<Rightarrow> real" where
  "fac_spec b N = (if b = (periodic, periodic) then 2 * pi / real_of_int N else pi / real_of_int N)"

definition alpha_spec :: "Geometry \<Rightarrow> BCs \<Rightarrow> IntVect \<Rightarrow> nat \<Rightarrow> real" where
  "alpha_spec geom bc idx d =
     fac_spec (at3 bc d) (length_box (Domain_g geom) d) * (real_of_int (at3 idx d) + delta_spec (at3 bc d))"

definition lambda_spec :: "Geometry \<Rightarrow> BCs \<Rightarrow> IntVect \<Rightarrow> real" where
  "lambda_spec geom bc idx =
     (\<Sum>d \<leftarrow> [0..<AMREX_SPACEDIM]. 2 / (at3 (CellSize geom) d)\<^sup>2 * (cos (alpha_spec geom bc idx d) - 1))"

text \<open>
  The same symbol evaluated in the arithmetic of \<^verbatim>\<open>T\<close>: \<open>\<delta>\<close> is \<^verbatim>\<open>T(0)\<close>, \<^verbatim>\<open>T(0.5)\<close> or
  \<^verbatim>\<open>T(1)\<close>, the factor \<open>2\<pi>/N\<close> is \<open>(\<pi>/N) \<cdot> 2\<close>, the square of a cell size is the product
  of the cell size with itself, the sum over the axes runs from axis 0 to axis 2.
\<close>

definition delta_T :: "('t, 'v) Tops \<Rightarrow> Boundary \<times> Boundary \<Rightarrow> 't" where
  "delta_T A b =
     (if b = (periodic, periodic) \<or> b = (even_bc, even_bc) then T_of_int A 0
      else if b = (even_bc, odd_bc) \<or> b = (odd_bc, even_bc) then T_half A
      else if b = (odd_bc, odd_bc) then T_of_int A 1
      else T_of_int A 0)"

definition fac_T :: "('t, 'v) Tops \<Rightarrow> Boundary \<times> Boundary \<Rightarrow> int \<Rightarrow> 't" where
  "fac_T A b N =
     (if b = (periodic, periodic) then T_mul A (T_div A (T_pi A) (T_of_int A N)) (T_of_int A 2)
      else T_div A (T_pi A) (T_of_int A N))"

definition alpha_T :: "('t, 'v) Tops \<Rightarrow> Geometry \<Rightarrow> BCs \<Rightarrow> IntVect \<Rightarrow> nat \<Rightarrow> 't" where
  "alpha_T A geom bc idx d =
     T_mul A (fac_T A (at3 bc d) (length_box (Domain_g geom) d))
             (T_add A (T_of_int A (at3 idx d)) (delta_T A (at3 bc d)))"

definition term_T :: "('t, 'v) Tops \<Rightarrow> Geometry \<Rightarrow> BCs \<Rightarrow> IntVect \<Rightarrow> nat \<Rightarrow> 't" where
  "term_T A geom bc idx d =
     T_mul A (T_div A (T_of_int A 2) (T_of_prod A (at3 (CellSize geom) d) (at3 (CellSize geom) d)))
             (T_sub A (T_cos A (alpha_T A geom bc idx d)) (T_of_int A 1))"

definition lambda_T :: "('t, 'v) Tops \<Rightarrow> Geometry \<Rightarrow> BCs \<Rightarrow> IntVect \<Rightarrow> 't" where
  "lambda_T A geom bc idx =
     T_add A (T_add A (term_T A geom bc idx 0) (term_T A geom bc idx 1)) (term_T A geom bc idx 2)"

section \<open>Concrete inputs\<close>

text \<open>
  An instance of \<^verbatim>\<open>decompose\<close> for the evaluations below: for two or more ranks it cuts
  the box in two along the highest axis that may be cut and has two cells or more.
\<close>

definition setSmall :: "Box \<Rightarrow> nat \<Rightarrow> int \<Rightarrow> Box" where
  "setSmall b d v = b\<lparr>smallend := set3 (smallend b) d v\<rparr>"

definition halve :: "Box \<Rightarrow> nat \<Rightarrow> Box list" where
  "halve b d = (let m = smallEnd b d + length_box b d div 2
                in [setBig b d (m - 1), setSmall b d m])"

definition decompose_halves :: "Box \<Rightarrow> nat \<Rightarrow> bool \<times> bool \<times> bool \<Rightarrow> Box list" where
  "decompose_halves b n ds =
     (if n < 2 then [b]
      else if at3 ds 2 \<and> length_box b 2 \<ge> 2 then halve b 2
      else if at3 ds 1 \<and> length_box b 1 \<ge> 2 then halve b 1
      else if at3 ds 0 \<and> length_box b 0 \<ge> 2 then halve b 0
      else [b])"

text \<open>Rank 0 of two ranks on the host back end.\<close>

definition env2 :: Env where
  "env2 = \<lparr>MyProcSub = 0, NProcsSub = 2, USE_SYCL = False, USE_GPU = False,
           decompose = decompose_halves\<rparr>"

definition all_periodic :: BCs where
  "all_periodic = ((periodic, periodic), (periodic, periodic), (periodic, periodic))"

text \<open>The same two ranks on a GPU back end other than SYCL.\<close>

definition env_gpu :: Env where
  "env_gpu = \<lparr>MyProcSub = 0, NProcsSub = 2, USE_SYCL = False, USE_GPU = True,
              decompose = decompose_halves\<rparr>"

text \<open>The unit-cell geometry on \<open>4 \<times> 4 \<times> 4\<close> cells.\<close>

definition geom_444 :: Geometry where
  "geom_444 = \<lparr>Domain_g = mkBox (0, 0, 0) (3, 3, 3), CellSize = (1, 1, 1),
               isPeriodic = (True, True, True)\<rparr>"

text \<open>The arithmetic without rounding, on real spectral data.\<close>

definition exact_ops :: "(real, real) Tops" where
  "exact_ops =
     \<lparr>T_of_int = real_of_int, T_half = 1 / 2, T_pi = pi, T_of_prod = (\<lambda>x y. x * y),
      T_add = (\<lambda>x y. x + y), T_sub = (\<lambda>x y. x - y), T_mul = (\<lambda>x y. x * y),
      T_div = (\<lambda>x y. x / y), T_cos = cos, T_ne = (\<lambda>x y. x \<noteq> y),
      val_div = (\<lambda>v t. v / t), val_mul = (\<lambda>v t. v * t)\<rparr>"

section \<open>Invariants used in the proofs\<close>

text \<open>
  The forward and backward plan of one axis after construction, when the vendor's next
  free handle was \<open>h\<close> before and is \<open>h'\<close> after: no plan, one shared handle, one plan
  only, or two plans with the two handles \<open>h\<close> and \<open>h + 1\<close>.
\<close>

definition pair_ok :: "VendorPlan \<Rightarrow> Plan \<Rightarrow> Plan \<Rightarrow> VendorPlan \<Rightarrow> bool" where
  "pair_ok h f b h' =
     ((f = None \<and> b = None \<and> h' = h) \<or>
      (f = Some h \<and> b = Some h \<and> h' = Suc h) \<or>
      (f = Some h \<and> b = None \<and> h' = Suc h) \<or>
      (f = None \<and> b = Some h \<and> h' = Suc h) \<or>
      (f = Some h \<and> b = Some (Suc h) \<and> h' = Suc (Suc h)))"

definition plans_ok :: "VendorPlan \<Rightarrow> 'a FFT_members_scheme \<Rightarrow> VendorPlan \<Rightarrow> bool" where
  "plans_ok h e h' =
     (\<exists>h1 h2. pair_ok h (m_fft_fwd_x e) (m_fft_bwd_x e) h1 \<and>
              pair_ok h1 (m_fft_fwd_y e) (m_fft_bwd_y e) h2 \<and>
              pair_ok h2 (m_fft_fwd_z e) (m_fft_bwd_z e) h')"

section \<open>Properties of R2X\<close>

lemma upt_SPACEDIM: "[0..<AMREX_SPACEDIM] = [0, 1, 2]"
  by (simp add: AMREX_SPACEDIM_def upt_rec)

lemma less_SPACEDIM: "d < AMREX_SPACEDIM \<longleftrightarrow> d = 0 \<or> d = 1 \<or> d = 2"
  by (auto simp: AMREX_SPACEDIM_def)

lemma all_less_SPACEDIM: "(\<forall>d<AMREX_SPACEDIM. P d) \<longleftrightarrow> P 0 \<and> P 1 \<and> P 2"
  by (auto simp: less_SPACEDIM)

lemma ex_less_SPACEDIM: "(\<exists>d<AMREX_SPACEDIM. P d) \<longleftrightarrow> P 0 \<or> P 1 \<or> P 2"
  by (auto simp: less_SPACEDIM)

lemma R2X_axis_checks_None:
  "R2X_axis_checks domain bc ds = None \<longleftrightarrow>
     (\<forall>d \<in> set ds. length_box domain d > 1 \<and> \<not> one_periodic_end (at3 bc d))"
  by (induction ds) (auto simp: one_periodic_end_def)

lemma R2X_axis_checks_all_long:
  "\<forall>d \<in> set ds. length_box domain d > 1 \<Longrightarrow>
   R2X_axis_checks domain bc ds =
     (if \<exists>d \<in> set ds. one_periodic_end (at3 bc d) then Some InvalidBoundary else None)"
  by (induction ds) (auto simp: one_periodic_end_def)

lemma R2X_axis_checks_no_mixed:
  "\<forall>d \<in> set ds. \<not> one_periodic_end (at3 bc d) \<Longrightarrow>
   R2X_axis_checks domain bc ds \<noteq> Some InvalidBoundary"
  by (induction ds) (auto simp: one_periodic_end_def)

lemma R2X_checks_None:
  "R2X_checks domain bc = None \<longleftrightarrow>
     smallend domain = (0, 0, 0) \<and> cellCentered domain \<and>
     (\<forall>d<AMREX_SPACEDIM. length_box domain d > 1 \<and> \<not> one_periodic_end (at3 bc d))"
  by (auto simp: R2X_checks_def R2X_axis_checks_None all_less_SPACEDIM upt_SPACEDIM
      simp del: R2X_axis_checks.simps)

lemma R2X_ctor_Inl: "R2X_ctor env domain bc h = Inl err \<longleftrightarrow> R2X_checks domain bc = Some err"
  by (auto simp: R2X_ctor_def Let_def split: option.splits prod.splits)

lemma R2X_ctor_succeeds:
  "R2X_checks domain bc = None \<Longrightarrow> \<exists>e h'. R2X_ctor env domain bc h = Inr (e, h')"
  by (simp add: R2X_ctor_def Let_def split_beta)

lemma R2X_make_x_frame [simp]:
  "m_dom_0 (R2X_make_x env domain bc e) = m_dom_0 e"
  "m_bc (R2X_make_x env domain bc e) = m_bc e"
  by (simp_all add: R2X_make_x_def Let_def)

lemma R2X_make_y_frame [simp]:
  "m_dom_0 (R2X_make_y env domain bc e) = m_dom_0 e"
  "m_bc (R2X_make_y env domain bc e) = m_bc e"
  by (simp_all add: R2X_make_y_def Let_def)

lemma R2X_make_z_frame [simp]:
  "m_dom_0 (R2X_make_z env domain bc e) = m_dom_0 e"
  "m_bc (R2X_make_z env domain bc e) = m_bc e"
  by (simp_all add: R2X_make_z_def Let_def)

lemma R2X_plans_frame [simp]:
  "m_dom_0 (fst (R2X_plans_x env bc e h)) = m_dom_0 e"
  "m_bc (fst (R2X_plans_x env bc e h)) = m_bc e"
  "m_dom_0 (fst (R2X_plans_y env bc e h)) = m_dom_0 e"
  "m_bc (fst (R2X_plans_y env bc e h)) = m_bc e"
  "m_dom_0 (fst (R2X_plans_z env bc e h)) = m_dom_0 e"
  "m_bc (fst (R2X_plans_z env bc e h)) = m_bc e"
  by (simp_all add: R2X_plans_x_def R2X_plans_y_def R2X_plans_z_def Let_def split: prod.splits)

lemma R2X_ctor_Inr:
  assumes "R2X_ctor env domain bc h = Inr (e, h')"
  shows "R2X_checks domain bc = None" and "m_dom_0 e = domain" and "m_bc e = bc"
proof -
  show c: "R2X_checks domain bc = None"
    using assms by (auto simp: R2X_ctor_def split: option.splits)
  let ?e0 = "R2X_make_z env domain bc (R2X_make_y env domain bc
               (R2X_make_x env domain bc (R2X_members domain bc)))"
  let ?px = "R2X_plans_x env bc ?e0 h"
  let ?py = "R2X_plans_y env bc (fst ?px) (snd ?px)"
  let ?pz = "R2X_plans_z env bc (fst ?py) (snd ?py)"
  have "e = fst ?pz"
    using assms c by (simp add: R2X_ctor_def Let_def split_beta)
  then show "m_dom_0 e = domain" and "m_bc e = bc"
    by (simp_all add: R2X_members_def)
qed

lemma valid_nonperiodic:
  "\<not> one_periodic_end b \<Longrightarrow> fst b \<noteq> periodic \<longleftrightarrow> nonperiodic_axis b"
  by (cases b) (auto simp: one_periodic_end_def nonperiodic_axis_def)

text \<open>
  C1. For an engine that the constructor built on the domain \<open>N0 \<times> N1 \<times> N2\<close> with the
  boundary conditions \<open>bc\<close>, \<open>scalingFactor()\<close> is one over the product of \<open>N0 N1 N2\<close> and
  of a factor 2 for every axis that is not periodic and has more than one cell.
\<close>

theorem R2X_scalingFactor_formula:
  assumes "R2X_ctor env domain bc h = Inr (e, h')"
  shows "R2X_scalingFactor e =
           1 / (real_of_int (length_box domain 0 * length_box domain 1 * length_box domain 2) *
                2 ^ length (filter (\<lambda>d. nonperiodic_axis (at3 bc d) \<and> length_box domain d > 1)
                                   [0..<AMREX_SPACEDIM]))"
proof -
  from R2X_ctor_Inr [OF assms] have c: "R2X_checks domain bc = None"
    and d: "m_dom_0 e = domain" and b: "m_bc e = bc" by auto
  obtain b0 b1 b2 where bc: "bc = (b0, b1, b2)" by (cases bc) auto
  from c have v: "\<not> one_periodic_end b0" "\<not> one_periodic_end b1" "\<not> one_periodic_end b2"
    by (simp_all add: R2X_checks_None all_less_SPACEDIM bc)
  have n: "fst b0 \<noteq> periodic \<longleftrightarrow> nonperiodic_axis b0"
    "fst b1 \<noteq> periodic \<longleftrightarrow> nonperiodic_axis b1" "fst b2 \<noteq> periodic \<longleftrightarrow> nonperiodic_axis b2"
    using v by (simp_all add: valid_nonperiodic)
  have "R2X_scalingFactor e =
          1 / real_of_int (fold (\<lambda>idim r. if nonperiodic_axis (at3 bc idim) \<and> length_box domain idim > 1
                             then r * 2 else r) [0, 1, 2] (numPts domain))"
    using n by (simp add: R2X_scalingFactor_def d b upt_SPACEDIM bc)
  also have "\<dots> = 1 / (real_of_int (length_box domain 0 * length_box domain 1 * length_box domain 2) *
                2 ^ length (filter (\<lambda>d. nonperiodic_axis (at3 bc d) \<and> length_box domain d > 1)
                                   [0, 1, 2]))"
    by (simp add: numPts_def)
  finally show ?thesis by (simp only: upt_SPACEDIM)
qed

lemma R2X_checks_888:
  "R2X_checks (mkBox (0, 0, 0) (7, 7, 7)) ((periodic, periodic), (even_bc, odd_bc), (odd_bc, odd_bc)) = None"
  by (simp add: R2X_checks_def upt_SPACEDIM mkBox_def length_box_def bigEnd_def smallEnd_def
      cellCentered_def)

theorem R2X_scalingFactor_formula_witness:
  "\<exists>e h'. R2X_ctor env2 (mkBox (0, 0, 0) (7, 7, 7))
             ((periodic, periodic), (even_bc, odd_bc), (odd_bc, odd_bc)) 0 = Inr (e, h') \<and>
          R2X_scalingFactor e = 1 / 2048"
proof -
  obtain e h' where c: "R2X_ctor env2 (mkBox (0, 0, 0) (7, 7, 7))
             ((periodic, periodic), (even_bc, odd_bc), (odd_bc, odd_bc)) 0 = Inr (e, h')"
    using R2X_ctor_succeeds [OF R2X_checks_888] by blast
  have "R2X_scalingFactor e = 1 / 2048"
    using R2X_scalingFactor_formula [OF c]
    by (simp add: upt_SPACEDIM mkBox_def length_box_def bigEnd_def smallEnd_def nonperiodic_axis_def)
  with c show ?thesis by blast
qed

text \<open>
  C7. When the domain passes its own checks, a boundary array in which some axis has
  exactly one periodic endpoint makes the constructor fail with \<open>InvalidBoundary\<close>; on any
  domain such an array makes it fail; and when no axis has exactly one periodic endpoint
  the constructor does not fail with \<open>InvalidBoundary\<close>.
\<close>

theorem R2X_boundary_check:
  "((smallend domain = (0, 0, 0) \<and> cellCentered domain \<and>
     (\<forall>d<AMREX_SPACEDIM. length_box domain d > 1)) \<and>
    (\<exists>d<AMREX_SPACEDIM. one_periodic_end (at3 bc d))
      \<longrightarrow> R2X_ctor env domain bc h = Inl InvalidBoundary) \<and>
   ((\<exists>d<AMREX_SPACEDIM. one_periodic_end (at3 bc d)) \<longrightarrow> isl (R2X_ctor env domain bc h)) \<and>
   ((\<forall>d<AMREX_SPACEDIM. \<not> one_periodic_end (at3 bc d))
      \<longrightarrow> R2X_ctor env domain bc h \<noteq> Inl InvalidBoundary)"
proof (intro conjI impI)
  assume a: "(smallend domain = (0, 0, 0) \<and> cellCentered domain \<and>
    (\<forall>d<AMREX_SPACEDIM. length_box domain d > 1)) \<and>
    (\<exists>d<AMREX_SPACEDIM. one_periodic_end (at3 bc d))"
  then have "R2X_axis_checks domain bc [0..<AMREX_SPACEDIM] = Some InvalidBoundary"
    by (subst R2X_axis_checks_all_long) auto
  with a show "R2X_ctor env domain bc h = Inl InvalidBoundary"
    by (simp add: R2X_ctor_Inl R2X_checks_def all_less_SPACEDIM)
next
  assume "\<exists>d<AMREX_SPACEDIM. one_periodic_end (at3 bc d)"
  then have "R2X_axis_checks domain bc [0..<AMREX_SPACEDIM] \<noteq> None"
    by (auto simp: R2X_axis_checks_None)
  then have "R2X_checks domain bc \<noteq> None"
    by (simp add: R2X_checks_def)
  then obtain err where "R2X_checks domain bc = Some err" by auto
  then have "R2X_ctor env domain bc h = Inl err" by (simp add: R2X_ctor_Inl)
  then show "isl (R2X_ctor env domain bc h)" by simp
next
  assume "\<forall>d<AMREX_SPACEDIM. \<not> one_periodic_end (at3 bc d)"
  then have "R2X_axis_checks domain bc [0..<AMREX_SPACEDIM] \<noteq> Some InvalidBoundary"
    by (intro R2X_axis_checks_no_mixed) auto
  moreover have "R2X_checks domain bc = Some InvalidBoundary \<Longrightarrow>
      R2X_axis_checks domain bc [0..<AMREX_SPACEDIM] = Some InvalidBoundary"
    by (auto simp: R2X_checks_def split: if_splits)
  ultimately show "R2X_ctor env domain bc h \<noteq> Inl InvalidBoundary"
    by (auto simp: R2X_ctor_Inl)
qed

theorem R2X_boundary_check_witness:
  "R2X_ctor env2 (mkBox (0, 0, 0) (7, 7, 7))
     ((even_bc, even_bc), (periodic, odd_bc), (periodic, periodic)) 0 = Inl InvalidBoundary \<and>
   isl (R2X_ctor env2 (mkBox (0, 0, 0) (7, 0, 0))
     ((even_bc, even_bc), (periodic, odd_bc), (periodic, periodic)) 0) \<and>
   R2X_ctor env2 (mkBox (0, 0, 0) (7, 7, 7))
     ((even_bc, odd_bc), (odd_bc, odd_bc), (periodic, periodic)) 0 \<noteq> Inl InvalidBoundary"
proof -
  let ?dom = "mkBox (0, 0, 0) (7, 7, 7)"
  let ?bad = "((even_bc, even_bc), (periodic, odd_bc), (periodic, periodic))"
  let ?good = "((even_bc, odd_bc), (odd_bc, odd_bc), (periodic, periodic))"
  have 1: "(smallend ?dom = (0, 0, 0) \<and> cellCentered ?dom \<and>
     (\<forall>d<AMREX_SPACEDIM. length_box ?dom d > 1)) \<and>
    (\<exists>d<AMREX_SPACEDIM. one_periodic_end (at3 ?bad d))"
    by (simp add: all_less_SPACEDIM ex_less_SPACEDIM mkBox_def length_box_def bigEnd_def
        smallEnd_def cellCentered_def one_periodic_end_def)
  have 2: "\<exists>d<AMREX_SPACEDIM. one_periodic_end (at3 ?bad d)"
    by (simp add: ex_less_SPACEDIM one_periodic_end_def)
  have 3: "\<forall>d<AMREX_SPACEDIM. \<not> one_periodic_end (at3 ?good d)"
    by (simp add: all_less_SPACEDIM one_periodic_end_def)
  show ?thesis
    using 1 2 3 R2X_boundary_check [of ?dom ?bad env2 0]
      R2X_boundary_check [of "mkBox (0, 0, 0) (7, 0, 0)" ?bad env2 0]
      R2X_boundary_check [of ?dom ?good env2 0]
    by blast
qed

text \<open>
  C3. On the domain \<open>8 \<times> 8 \<times> 1\<close> with periodic boundaries the constructor of R2X fails.
  The domain passes the assertion \<open>length(1) > 1 || length(2) == 1\<close> that precedes the
  loop over the axes; the loop then asserts that every axis has more than one cell.
\<close>

theorem R2X_ctor_rejects_8_8_1:
  "(length_box (mkBox (0, 0, 0) (7, 7, 0)) 1 > 1 \<or> length_box (mkBox (0, 0, 0) (7, 7, 0)) 2 = 1) \<and>
   R2X_axis_checks (mkBox (0, 0, 0) (7, 7, 0)) all_periodic [0..<AMREX_SPACEDIM] =
     Some InvalidDomain \<and>
   R2X_ctor env2 (mkBox (0, 0, 0) (7, 7, 0)) all_periodic 0 = Inl InvalidDomain"
  by (simp add: R2X_ctor_Inl R2X_checks_def upt_SPACEDIM mkBox_def length_box_def bigEnd_def
      smallEnd_def cellCentered_def all_periodic_def)

lemma R2X_ctor_rejects_unit_axis:
  "length_box domain 1 = 1 \<or> length_box domain 2 = 1 \<Longrightarrow> isl (R2X_ctor env domain bc h)"
proof -
  assume "length_box domain 1 = 1 \<or> length_box domain 2 = 1"
  then have "R2X_checks domain bc \<noteq> None"
    by (auto simp: R2X_checks_None all_less_SPACEDIM)
  then obtain err where "R2X_checks domain bc = Some err" by auto
  then have "R2X_ctor env domain bc h = Inl err" by (simp add: R2X_ctor_Inl)
  then show ?thesis by simp
qed

lemma R2X_actual_dim_3:
  assumes "R2X_ctor env domain bc h = Inr (e, h')"
  shows "R2X_actual_dim e = 3"
proof -
  from R2X_ctor_Inr [OF assms]
  have "length_box (m_dom_0 e) 1 > 1" and "length_box (m_dom_0 e) 2 > 1"
    by (simp_all add: R2X_checks_None all_less_SPACEDIM)
  then show ?thesis
    by (simp add: R2X_actual_dim_def AMREX_SPACEDIM_def)
qed

text \<open>
  An engine that exists has more than one cell along every axis, so the post-forward
  block of \<open>R2X::forwardThenBackward\<close> always takes its three-dimensional branch.
\<close>

lemma R2X_post_forward_3d:
  assumes "R2X_ctor env domain bc h = Inr (e, h')"
  shows "R2X_post_forward env' e =
           (if empty_fa (m_cz e) then R2X_post_forward_doit 2 RZ (get_fab env' (m_rz e))
            else R2X_post_forward_doit 2 CZ (get_fab env' (m_cz e)))"
  by (simp add: R2X_post_forward_def R2X_actual_dim_3 [OF assms])

section \<open>Plans and their release\<close>

lemma pair_ok_mono: "pair_ok h f b h' \<Longrightarrow> h \<le> h'"
  by (auto simp: pair_ok_def)

lemma pair_ok_range: "pair_ok h f b h' \<Longrightarrow> set_option f \<union> set_option b = {h..<h'}"
  by (auto simp: pair_ok_def)

lemma pair_ok_release:
  "pair_ok h f b h' \<Longrightarrow>
   distinct ((if b \<noteq> f then destroy b else []) @ destroy f) \<and>
   set ((if b \<noteq> f then destroy b else []) @ destroy f) = {h..<h'}"
  by (auto simp: pair_ok_def destroy_def)

lemma init_fwd_bwd_ok: "init_fwd_bwd s mf mb h = (f, b, h') \<Longrightarrow> pair_ok h f b h'"
  by (auto simp: init_fwd_bwd_def init_plan_def pair_ok_def split: if_splits)

lemma make_c2c_plans_ok: "make_c2c_plans env D fa h = (f, b, h') \<Longrightarrow> pair_ok h f b h'"
  by (auto simp: make_c2c_plans_def pair_ok_def dest: init_fwd_bwd_ok split: option.splits)

lemma distinct_count_list: "distinct xs \<Longrightarrow> count_list xs x = (if x \<in> set xs then 1 else 0)"
  by (induction xs) auto

lemma distinct_ranges:
  fixes A B C :: "nat list"
  assumes "distinct A \<and> set A = {h..<h1}" "distinct B \<and> set B = {h1..<h2}"
    "distinct C \<and> set C = {h2..<h'}" "h \<le> h1" "h1 \<le> h2" "h2 \<le> h'"
  shows "distinct (A @ B @ C)" and "set (A @ B @ C) = {h..<h'}"
  using assms by auto

lemma union_ranges:
  fixes A B C :: "nat set"
  assumes "A = {h..<h1}" "B = {h1..<h2}" "C = {h2..<h'}" "h \<le> h1" "h1 \<le> h2" "h2 \<le> h'"
  shows "A \<union> B \<union> C = {h..<h'}"
  using assms by auto

lemma distinct_shuffle:
  "distinct (bx @ by @ bz @ fx @ fy @ fz) = distinct ((bx @ fx) @ (by @ fy) @ (bz @ fz))"
  by auto

lemma plans_ok_dtor:
  assumes "plans_ok h e h'"
  shows "distinct (dtor e)" and "set (dtor e) = {h..<h'}" and "held_plans e = {h..<h'}"
proof -
  from assms obtain h1 h2 where
    x: "pair_ok h (m_fft_fwd_x e) (m_fft_bwd_x e) h1" and
    y: "pair_ok h1 (m_fft_fwd_y e) (m_fft_bwd_y e) h2" and
    z: "pair_ok h2 (m_fft_fwd_z e) (m_fft_bwd_z e) h'"
    by (auto simp: plans_ok_def)
  let ?X = "(if m_fft_bwd_x e \<noteq> m_fft_fwd_x e then destroy (m_fft_bwd_x e) else []) @ destroy (m_fft_fwd_x e)"
  let ?Y = "(if m_fft_bwd_y e \<noteq> m_fft_fwd_y e then destroy (m_fft_bwd_y e) else []) @ destroy (m_fft_fwd_y e)"
  let ?Z = "(if m_fft_bwd_z e \<noteq> m_fft_fwd_z e then destroy (m_fft_bwd_z e) else []) @ destroy (m_fft_fwd_z e)"
  note rx = pair_ok_release [OF x] and ry = pair_ok_release [OF y] and rz = pair_ok_release [OF z]
  have le: "h \<le> h1" "h1 \<le> h2" "h2 \<le> h'"
    using x y z by (auto dest: pair_ok_mono)
  have s: "set (dtor e) = set ?X \<union> set ?Y \<union> set ?Z"
    by (auto simp: dtor_def)
  show 2: "set (dtor e) = {h..<h'}"
    unfolding s using distinct_ranges(2) [OF rx ry rz le] by (simp only: set_append Un_assoc)
  have "distinct (?X @ ?Y @ ?Z)"
    by (rule distinct_ranges(1) [OF rx ry rz le])
  then show "distinct (dtor e)"
    unfolding dtor_def distinct_shuffle .
  have "held_plans e =
          (set_option (m_fft_fwd_x e) \<union> set_option (m_fft_bwd_x e)) \<union>
          (set_option (m_fft_fwd_y e) \<union> set_option (m_fft_bwd_y e)) \<union>
          (set_option (m_fft_fwd_z e) \<union> set_option (m_fft_bwd_z e))"
    by (simp add: held_plans_def Un_assoc)
  also have "\<dots> = {h..<h'}"
    by (rule union_ranges [OF pair_ok_range [OF x] pair_ok_range [OF y] pair_ok_range [OF z] le])
  finally show "held_plans e = {h..<h'}" .
qed

lemma pair_ok_None: "pair_ok h None None h"
  by (simp add: pair_ok_def)

lemma store_pair_x:
  assumes "(if c then (let (f, b, h') = fbh in (e\<lparr>m_fft_fwd_x := f, m_fft_bwd_x := b\<rparr>, h'))
            else (e, h)) = (e', h')"
    and "pair_ok h (fst fbh) (fst (snd fbh)) (snd (snd fbh))"
    and "m_fft_fwd_x e = None" "m_fft_bwd_x e = None"
  shows "pair_ok h (m_fft_fwd_x e') (m_fft_bwd_x e') h'"
    and "m_fft_fwd_y e' = m_fft_fwd_y e" and "m_fft_bwd_y e' = m_fft_bwd_y e"
    and "m_fft_fwd_z e' = m_fft_fwd_z e" and "m_fft_bwd_z e' = m_fft_bwd_z e"
  using assms by (cases c; cases fbh; auto simp: pair_ok_None)+

lemma store_pair_y:
  assumes "(if c then (let (f, b, h') = fbh in (e\<lparr>m_fft_fwd_y := f, m_fft_bwd_y := b\<rparr>, h'))
            else (e, h)) = (e', h')"
    and "pair_ok h (fst fbh) (fst (snd fbh)) (snd (snd fbh))"
    and "m_fft_fwd_y e = None" "m_fft_bwd_y e = None"
  shows "pair_ok h (m_fft_fwd_y e') (m_fft_bwd_y e') h'"
    and "m_fft_fwd_x e' = m_fft_fwd_x e" and "m_fft_bwd_x e' = m_fft_bwd_x e"
    and "m_fft_fwd_z e' = m_fft_fwd_z e" and "m_fft_bwd_z e' = m_fft_bwd_z e"
  using assms by (cases c; cases fbh; auto simp: pair_ok_None)+

lemma store_pair_z:
  assumes "(if c then (let (f, b, h') = fbh in (e\<lparr>m_fft_fwd_z := f, m_fft_bwd_z := b\<rparr>, h'))
            else (e, h)) = (e', h')"
    and "pair_ok h (fst fbh) (fst (snd fbh)) (snd (snd fbh))"
    and "m_fft_fwd_z e = None" "m_fft_bwd_z e = None"
  shows "pair_ok h (m_fft_fwd_z e') (m_fft_bwd_z e') h'"
    and "m_fft_fwd_x e' = m_fft_fwd_x e" and "m_fft_bwd_x e' = m_fft_bwd_x e"
    and "m_fft_fwd_y e' = m_fft_fwd_y e" and "m_fft_bwd_y e' = m_fft_bwd_y e"
  using assms by (cases c; cases fbh; auto simp: pair_ok_None)+

lemma init_fwd_bwd_ok': "pair_ok h (fst (init_fwd_bwd s mf mb h)) (fst (snd (init_fwd_bwd s mf mb h)))
     (snd (snd (init_fwd_bwd s mf mb h)))"
  by (cases "init_fwd_bwd s mf mb h") (auto dest: init_fwd_bwd_ok)

lemma make_c2c_plans_ok': "pair_ok h (fst (make_c2c_plans env D fa h)) (fst (snd (make_c2c_plans env D fa h)))
     (snd (snd (make_c2c_plans env D fa h)))"
  by (cases "make_c2c_plans env D fa h") (auto dest: make_c2c_plans_ok)

lemma R2C_plans_x_ok:
  assumes "R2C_plans_x env D e h = (e', h')" "m_fft_fwd_x e = None" "m_fft_bwd_x e = None"
  shows "pair_ok h (m_fft_fwd_x e') (m_fft_bwd_x e') h'"
    and "m_fft_fwd_y e' = m_fft_fwd_y e" and "m_fft_bwd_y e' = m_fft_bwd_y e"
    and "m_fft_fwd_z e' = m_fft_fwd_z e" and "m_fft_bwd_z e' = m_fft_bwd_z e"
  by (rule store_pair_x [OF assms(1) [unfolded R2C_plans_x_def] init_fwd_bwd_ok' assms(2,3)])+

lemma R2C_plans_y_ok:
  assumes "R2C_plans_y env D e h = (e', h')" "m_fft_fwd_y e = None" "m_fft_bwd_y e = None"
  shows "pair_ok h (m_fft_fwd_y e') (m_fft_bwd_y e') h'"
    and "m_fft_fwd_x e' = m_fft_fwd_x e" and "m_fft_bwd_x e' = m_fft_bwd_x e"
    and "m_fft_fwd_z e' = m_fft_fwd_z e" and "m_fft_bwd_z e' = m_fft_bwd_z e"
  by (rule store_pair_y [OF assms(1) [unfolded R2C_plans_y_def] make_c2c_plans_ok' assms(2,3)])+

lemma R2C_plans_z_ok:
  assumes "R2C_plans_z env D e h = (e', h')" "m_fft_fwd_z e = None" "m_fft_bwd_z e = None"
  shows "pair_ok h (m_fft_fwd_z e') (m_fft_bwd_z e') h'"
    and "m_fft_fwd_x e' = m_fft_fwd_x e" and "m_fft_bwd_x e' = m_fft_bwd_x e"
    and "m_fft_fwd_y e' = m_fft_fwd_y e" and "m_fft_bwd_y e' = m_fft_bwd_y e"
  by (rule store_pair_z [OF assms(1) [unfolded R2C_plans_z_def] make_c2c_plans_ok' assms(2,3)])+

lemma R2C_no_plans:
  "m_fft_fwd_x (R2C_make_copiers (R2C_make_containers env (R2C_members domain info))) = None"
  "m_fft_bwd_x (R2C_make_copiers (R2C_make_containers env (R2C_members domain info))) = None"
  "m_fft_fwd_y (R2C_make_copiers (R2C_make_containers env (R2C_members domain info))) = None"
  "m_fft_bwd_y (R2C_make_copiers (R2C_make_containers env (R2C_members domain info))) = None"
  "m_fft_fwd_z (R2C_make_copiers (R2C_make_containers env (R2C_members domain info))) = None"
  "m_fft_bwd_z (R2C_make_copiers (R2C_make_containers env (R2C_members domain info))) = None"
  by (simp_all add: R2C_make_copiers_def R2C_make_containers_def R2C_members_def Let_def
      split: prod.splits)

lemma R2C_ctor_plans_ok:
  assumes "R2C_ctor env D domain info h = Inr (e, h')"
  shows "plans_ok h e h'"
proof -
  let ?e0 = "R2C_make_copiers (R2C_make_containers env (R2C_members domain info))"
  obtain ex hx where x: "R2C_plans_x env D ?e0 h = (ex, hx)" by (cases "R2C_plans_x env D ?e0 h")
  obtain ey hy where y: "R2C_plans_y env D ex hx = (ey, hy)" by (cases "R2C_plans_y env D ex hx")
  obtain ez hz where z: "R2C_plans_z env D ey hy = (ez, hz)" by (cases "R2C_plans_z env D ey hy")
  from assms x y z have e: "e = ez" "h' = hz"
    by (auto simp: R2C_ctor_def Let_def split: option.splits)
  note X = R2C_plans_x_ok [OF x R2C_no_plans(1,2)]
  have "m_fft_fwd_y ex = None" "m_fft_bwd_y ex = None"
    using X R2C_no_plans [of env domain info] by simp_all
  note Y = R2C_plans_y_ok [OF y this]
  have "m_fft_fwd_z ey = None" "m_fft_bwd_z ey = None"
    using X Y R2C_no_plans [of env domain info] by simp_all
  note Z = R2C_plans_z_ok [OF z this]
  show ?thesis
    unfolding plans_ok_def e using X(1) Y(1) Z(1) Y(2,3) Z(2,3,4,5)
    by (intro exI [of _ hx] exI [of _ hy]) simp
qed


lemma R2X_plans_x_ok:
  assumes "R2X_plans_x env bc e h = (e', h')" "m_fft_fwd_x e = None" "m_fft_bwd_x e = None"
  shows "pair_ok h (m_fft_fwd_x e') (m_fft_bwd_x e') h'"
    and "m_fft_fwd_y e' = m_fft_fwd_y e" and "m_fft_bwd_y e' = m_fft_bwd_y e"
    and "m_fft_fwd_z e' = m_fft_fwd_z e" and "m_fft_bwd_z e' = m_fft_bwd_z e"
proof -
  have p: "pair_ok h (fst fbh) (fst (snd fbh)) (snd (snd fbh))"
    if "fbh = (if fst (at3 bc 0) = periodic then init_fwd_bwd (USE_SYCL env) True True h
               else init_fwd_bwd (USE_GPU env \<and> mixed_parity (at3 bc 0)) True True h)" for fbh
    unfolding that by (simp add: init_fwd_bwd_ok')
  show "pair_ok h (m_fft_fwd_x e') (m_fft_bwd_x e') h'"
    and "m_fft_fwd_y e' = m_fft_fwd_y e" and "m_fft_bwd_y e' = m_fft_bwd_y e"
    and "m_fft_fwd_z e' = m_fft_fwd_z e" and "m_fft_bwd_z e' = m_fft_bwd_z e"
    by (rule store_pair_x [OF assms(1) [unfolded R2X_plans_x_def] p [OF refl] assms(2,3)])+
qed

lemma R2X_plans_y_ok:
  assumes "R2X_plans_y env bc e h = (e', h')" "m_fft_fwd_y e = None" "m_fft_bwd_y e = None"
  shows "pair_ok h (m_fft_fwd_y e') (m_fft_bwd_y e') h'"
    and "m_fft_fwd_x e' = m_fft_fwd_x e" and "m_fft_bwd_x e' = m_fft_bwd_x e"
    and "m_fft_fwd_z e' = m_fft_fwd_z e" and "m_fft_bwd_z e' = m_fft_bwd_z e"
proof -
  from assms(1) obtain n share where ns:
    "(if MyProcSub env < n
      then (let (f, b, h') = init_fwd_bwd share True True h
            in (e\<lparr>m_fft_fwd_y := f, m_fft_bwd_y := b\<rparr>, h'))
      else (e, h)) = (e', h')"
    by (simp add: R2X_plans_y_def Let_def split_beta)
  show "pair_ok h (m_fft_fwd_y e') (m_fft_bwd_y e') h'"
    and "m_fft_fwd_x e' = m_fft_fwd_x e" and "m_fft_bwd_x e' = m_fft_bwd_x e"
    and "m_fft_fwd_z e' = m_fft_fwd_z e" and "m_fft_bwd_z e' = m_fft_bwd_z e"
    by (rule store_pair_y [OF ns init_fwd_bwd_ok' assms(2,3)])+
qed

lemma R2X_plans_z_ok:
  assumes "R2X_plans_z env bc e h = (e', h')" "m_fft_fwd_z e = None" "m_fft_bwd_z e = None"
  shows "pair_ok h (m_fft_fwd_z e') (m_fft_bwd_z e') h'"
    and "m_fft_fwd_x e' = m_fft_fwd_x e" and "m_fft_bwd_x e' = m_fft_bwd_x e"
    and "m_fft_fwd_y e' = m_fft_fwd_y e" and "m_fft_bwd_y e' = m_fft_bwd_y e"
proof -
  from assms(1) obtain n share where ns:
    "(if MyProcSub env < n
      then (let (f, b, h') = init_fwd_bwd share True True h
            in (e\<lparr>m_fft_fwd_z := f, m_fft_bwd_z := b\<rparr>, h'))
      else (e, h)) = (e', h')"
    by (simp add: R2X_plans_z_def Let_def split_beta)
  show "pair_ok h (m_fft_fwd_z e') (m_fft_bwd_z e') h'"
    and "m_fft_fwd_x e' = m_fft_fwd_x e" and "m_fft_bwd_x e' = m_fft_bwd_x e"
    and "m_fft_fwd_y e' = m_fft_fwd_y e" and "m_fft_bwd_y e' = m_fft_bwd_y e"
    by (rule store_pair_z [OF ns init_fwd_bwd_ok' assms(2,3)])+
qed

lemma R2X_make_x_plans [simp]:
  "m_fft_fwd_x (R2X_make_x env domain bc e) = m_fft_fwd_x e"
  "m_fft_bwd_x (R2X_make_x env domain bc e) = m_fft_bwd_x e"
  "m_fft_fwd_y (R2X_make_x env domain bc e) = m_fft_fwd_y e"
  "m_fft_bwd_y (R2X_make_x env domain bc e) = m_fft_bwd_y e"
  "m_fft_fwd_z (R2X_make_x env domain bc e) = m_fft_fwd_z e"
  "m_fft_bwd_z (R2X_make_x env domain bc e) = m_fft_bwd_z e"
  by (simp_all add: R2X_make_x_def Let_def)

lemma R2X_make_y_plans [simp]:
  "m_fft_fwd_x (R2X_make_y env domain bc e) = m_fft_fwd_x e"
  "m_fft_bwd_x (R2X_make_y env domain bc e) = m_fft_bwd_x e"
  "m_fft_fwd_y (R2X_make_y env domain bc e) = m_fft_fwd_y e"
  "m_fft_bwd_y (R2X_make_y env domain bc e) = m_fft_bwd_y e"
  "m_fft_fwd_z (R2X_make_y env domain bc e) = m_fft_fwd_z e"
  "m_fft_bwd_z (R2X_make_y env domain bc e) = m_fft_bwd_z e"
  by (simp_all add: R2X_make_y_def Let_def)

lemma R2X_make_z_plans [simp]:
  "m_fft_fwd_x (R2X_make_z env domain bc e) = m_fft_fwd_x e"
  "m_fft_bwd_x (R2X_make_z env domain bc e) = m_fft_bwd_x e"
  "m_fft_fwd_y (R2X_make_z env domain bc e) = m_fft_fwd_y e"
  "m_fft_bwd_y (R2X_make_z env domain bc e) = m_fft_bwd_y e"
  "m_fft_fwd_z (R2X_make_z env domain bc e) = m_fft_fwd_z e"
  "m_fft_bwd_z (R2X_make_z env domain bc e) = m_fft_bwd_z e"
  by (simp_all add: R2X_make_z_def Let_def)

lemma R2X_ctor_plans_ok:
  assumes "R2X_ctor env domain bc h = Inr (e, h')"
  shows "plans_ok h e h'"
proof -
  let ?e0 = "R2X_make_z env domain bc (R2X_make_y env domain bc
               (R2X_make_x env domain bc (R2X_members domain bc)))"
  have n: "m_fft_fwd_x ?e0 = None" "m_fft_bwd_x ?e0 = None" "m_fft_fwd_y ?e0 = None"
    "m_fft_bwd_y ?e0 = None" "m_fft_fwd_z ?e0 = None" "m_fft_bwd_z ?e0 = None"
    by (simp_all add: R2X_members_def)
  obtain ex hx where x: "R2X_plans_x env bc ?e0 h = (ex, hx)" by (cases "R2X_plans_x env bc ?e0 h")
  obtain ey hy where y: "R2X_plans_y env bc ex hx = (ey, hy)" by (cases "R2X_plans_y env bc ex hx")
  obtain ez hz where z: "R2X_plans_z env bc ey hy = (ez, hz)" by (cases "R2X_plans_z env bc ey hy")
  from assms x y z have e: "e = ez" "h' = hz"
    by (auto simp: R2X_ctor_def Let_def split: option.splits)
  note X = R2X_plans_x_ok [OF x n(1,2)]
  have "m_fft_fwd_y ex = None" "m_fft_bwd_y ex = None"
    using X n by simp_all
  note Y = R2X_plans_y_ok [OF y this]
  have "m_fft_fwd_z ey = None" "m_fft_bwd_z ey = None"
    using X Y n by simp_all
  note Z = R2X_plans_z_ok [OF z this]
  show ?thesis
    unfolding plans_ok_def e using X(1) Y(1) Z(1) Y(2,3) Z(2,3,4,5)
    by (intro exI [of _ hx] exI [of _ hy]) simp
qed

text \<open>
  C8. Of an engine that either constructor built, the destructor releases every vendor
  handle the engine holds exactly once and nothing else; the handles held are those the
  constructor obtained from the vendor. So a handle that the forward and the backward
  plan of an axis share is released once, and two different handles once each.
\<close>

theorem plans_destroyed_once:
  "(R2C_ctor env D domain info h = Inr (e, h') \<longrightarrow>
      held_plans e = {h..<h'} \<and>
      (\<forall>p. count_list (dtor e) p = (if p \<in> held_plans e then 1 else 0))) \<and>
   (R2X_ctor env domain bc h = Inr (x, h'') \<longrightarrow>
      held_plans x = {h..<h''} \<and>
      (\<forall>p. count_list (dtor x) p = (if p \<in> held_plans x then 1 else 0)))"
proof (intro conjI impI allI)
  assume "R2C_ctor env D domain info h = Inr (e, h')"
  note d = plans_ok_dtor [OF R2C_ctor_plans_ok [OF this]]
  show "held_plans e = {h..<h'}" by (rule d(3))
  show "count_list (dtor e) p = (if p \<in> held_plans e then 1 else 0)" for p
    using distinct_count_list [OF d(1), of p] d(2,3) by simp
next
  assume "R2X_ctor env domain bc h = Inr (x, h'')"
  note d = plans_ok_dtor [OF R2X_ctor_plans_ok [OF this]]
  show "held_plans x = {h..<h''}" by (rule d(3))
  show "count_list (dtor x) p = (if p \<in> held_plans x then 1 else 0)" for p
    using distinct_count_list [OF d(1), of p] d(2,3) by simp
qed

lemmas box_defs = mkBox_def length_box_def bigEnd_def smallEnd_def cellCentered_def
  setBig_def setSmall_def Box_default_def

lemmas fa_defs = FabArray_default_def define_fa_def empty_fa_def size_fa_def
  make_iota_distromap_def get_fab_def shared_or_iota_def

lemmas env_defs = env2_def env_gpu_def decompose_halves_def halve_def

lemmas R2C_ctor_defs = R2C_ctor_def R2C_checks_def R2C_members_def R2C_make_containers_def
  R2C_make_copiers_def R2C_plans_x_def R2C_plans_y_def R2C_plans_z_def make_c2c_plans_def
  init_fwd_bwd_def init_plan_def

lemmas R2X_ctor_defs = R2X_ctor_def R2X_checks_def R2X_members_def R2X_make_x_def
  R2X_make_y_def R2X_make_z_def R2X_plans_x_def R2X_plans_y_def R2X_plans_z_def
  mixed_parity_def init_fwd_bwd_def init_plan_def

lemma R2C_ctor_Inl: "R2C_ctor env D domain info h = Inl err \<longleftrightarrow> R2C_checks domain info = Some err"
  by (auto simp: R2C_ctor_def Let_def split: option.splits prod.splits)

lemma R2C_ctor_succeeds:
  "R2C_checks domain info = None \<Longrightarrow> \<exists>e h'. R2C_ctor env D domain info h = Inr (e, h')"
  by (simp add: R2C_ctor_def Let_def split_beta)

lemma R2C_ctor_888:
  "R2C_ctor env2 both (mkBox (0, 0, 0) (7, 7, 7)) \<lparr>batch_mode = False\<rparr> 0 = Inr (e, h') \<Longrightarrow>
     h' = 6 \<and> dtor e = [1, 3, 5, 0, 2, 4]"
  by (auto simp add: R2C_ctor_defs box_defs fa_defs env_defs Let_def dtor_def destroy_def)

lemma R2X_ctor_888_gpu:
  "R2X_ctor env_gpu (mkBox (0, 0, 0) (7, 7, 7))
     ((periodic, periodic), (even_bc, odd_bc), (odd_bc, odd_bc)) 0 = Inr (x, h') \<Longrightarrow>
     h' = 5 \<and> dtor x = [1, 4, 0, 2, 3]"
  by (auto simp add: R2X_ctor_defs upt_SPACEDIM box_defs fa_defs env_defs Let_def dtor_def destroy_def)

theorem plans_destroyed_once_witness:
  "\<exists>e x. R2C_ctor env2 both (mkBox (0, 0, 0) (7, 7, 7)) \<lparr>batch_mode = False\<rparr> 0 = Inr (e, 6) \<and>
         dtor e = [1, 3, 5, 0, 2, 4] \<and> held_plans e = {0..<6} \<and>
         (\<forall>p. count_list (dtor e) p = (if p \<in> held_plans e then 1 else 0)) \<and>
         R2X_ctor env_gpu (mkBox (0, 0, 0) (7, 7, 7))
           ((periodic, periodic), (even_bc, odd_bc), (odd_bc, odd_bc)) 0 = Inr (x, 5) \<and>
         dtor x = [1, 4, 0, 2, 3] \<and> held_plans x = {0..<5} \<and>
         (\<forall>p. count_list (dtor x) p = (if p \<in> held_plans x then 1 else 0))"
proof -
  let ?dom = "mkBox (0, 0, 0) (7, 7, 7)"
  let ?bc = "((periodic, periodic), (even_bc, odd_bc), (odd_bc, odd_bc))"
  have "R2C_checks ?dom \<lparr>batch_mode = False\<rparr> = None"
    by (simp add: R2C_checks_def box_defs)
  then obtain e h' where e: "R2C_ctor env2 both ?dom \<lparr>batch_mode = False\<rparr> 0 = Inr (e, h')"
    using R2C_ctor_succeeds by blast
  have "R2X_checks ?dom ?bc = None"
    by (simp add: R2X_checks_def upt_SPACEDIM box_defs)
  then obtain x h'' where x: "R2X_ctor env_gpu ?dom ?bc 0 = Inr (x, h'')"
    using R2X_ctor_succeeds by blast
  from R2C_ctor_888 [OF e] R2X_ctor_888_gpu [OF x] e x
    plans_destroyed_once [where env = env2 and D = both and domain = ?dom
      and info = "\<lparr>batch_mode = False\<rparr>" and h = 0 and e = e and h' = h']
    plans_destroyed_once [where env = env_gpu and domain = ?dom and bc = ?bc and h = 0
      and x = x and h'' = h'']
  show ?thesis by (intro exI [of _ e] exI [of _ x]) simp
qed

section \<open>Properties of R2C\<close>

lemma R2C_checks_None:
  "R2C_checks domain info = None \<longleftrightarrow>
     smallend domain = (0, 0, 0) \<and> length_box domain 0 > 1 \<and> cellCentered domain \<and>
     (length_box domain 2 > 1 \<or> \<not> batch_mode info) \<and>
     (length_box domain 1 > 1 \<or> length_box domain 2 = 1)"
  by (auto simp: R2C_checks_def)

lemma R2C_checks_Some: "R2C_checks domain info = Some err \<Longrightarrow> err = InvalidDomain"
  by (auto simp: R2C_checks_def split: if_splits)

text \<open>
  C6, as the code has it. For a cell-centred domain with no empty axis, the constructor
  of R2C fails with \<open>InvalidDomain\<close> exactly when \<open>lo \<noteq> 0\<close>, or \<open>N0 \<le> 1\<close>, or \<open>N1 \<le> 1\<close>
  while \<open>N2 > 1\<close>, or batch mode is asked for while \<open>N2 \<le> 1\<close>; for every domain that meets
  these conditions the shape checks of the constructor pass.
\<close>

theorem R2C_ctor_InvalidDomain_iff:
  assumes "cellCentered domain" and "ok_box domain"
  shows "(R2C_ctor env D domain info h = Inl InvalidDomain \<longleftrightarrow>
            \<not> (smallend domain = (0, 0, 0) \<and> length_box domain 0 > 1 \<and>
               (length_box domain 2 > 1 \<longrightarrow> length_box domain 1 > 1) \<and>
               (batch_mode info \<longrightarrow> length_box domain 2 > 1))) \<and>
         (smallend domain = (0, 0, 0) \<and> length_box domain 0 > 1 \<and>
          (length_box domain 2 > 1 \<longrightarrow> length_box domain 1 > 1) \<and>
          (batch_mode info \<longrightarrow> length_box domain 2 > 1)
            \<longrightarrow> R2C_checks domain info = None)"
proof -
  have n: "length_box domain 2 \<ge> 1"
    using assms(2) by (simp add: ok_box_def length_box_def)
  have c: "R2C_checks domain info = None \<longleftrightarrow>
           smallend domain = (0, 0, 0) \<and> length_box domain 0 > 1 \<and>
           (length_box domain 2 > 1 \<longrightarrow> length_box domain 1 > 1) \<and>
           (batch_mode info \<longrightarrow> length_box domain 2 > 1)"
    using assms(1) n by (auto simp: R2C_checks_None)
  have "R2C_ctor env D domain info h = Inl InvalidDomain \<longleftrightarrow> R2C_checks domain info \<noteq> None"
    using R2C_checks_Some [of domain info] by (auto simp: R2C_ctor_Inl)
  with c show ?thesis by simp
qed

theorem R2C_ctor_InvalidDomain_iff_witness:
  "R2C_ctor env2 both (mkBox (0, 0, 0) (7, 0, 3)) \<lparr>batch_mode = False\<rparr> 0 = Inl InvalidDomain \<and>
   R2C_ctor env2 both (mkBox (0, 0, 0) (7, 7, 0)) \<lparr>batch_mode = False\<rparr> 0 \<noteq> Inl InvalidDomain \<and>
   R2C_checks (mkBox (0, 0, 0) (7, 7, 0)) \<lparr>batch_mode = False\<rparr> = None"
proof -
  have a: "cellCentered (mkBox (0, 0, 0) (7, 0, 3))" "ok_box (mkBox (0, 0, 0) (7, 0, 3))"
    "cellCentered (mkBox (0, 0, 0) (7, 7, 0))" "ok_box (mkBox (0, 0, 0) (7, 7, 0))"
    by (simp_all add: box_defs ok_box_def)
  show ?thesis
    using R2C_ctor_InvalidDomain_iff [OF a(1,2), of env2 both "\<lparr>batch_mode = False\<rparr>" 0]
      R2C_ctor_InvalidDomain_iff [OF a(3,4), of env2 both "\<lparr>batch_mode = False\<rparr>" 0]
    by (simp add: box_defs)
qed

text \<open>
  The claim C6 as stated fails in batch mode: the domain \<open>8 \<times> 8 \<times> 1\<close> has \<open>lo = 0\<close>,
  \<open>N0 > 1\<close> and \<open>N2 = 1\<close>, and the constructor rejects it.
\<close>

theorem R2C_batch_rejects_8_8_1:
  "cellCentered (mkBox (0, 0, 0) (7, 7, 0)) \<and>
   smallend (mkBox (0, 0, 0) (7, 7, 0)) = (0, 0, 0) \<and>
   length_box (mkBox (0, 0, 0) (7, 7, 0)) 0 > 1 \<and>
   length_box (mkBox (0, 0, 0) (7, 7, 0)) 1 > 1 \<and>
   \<not> length_box (mkBox (0, 0, 0) (7, 7, 0)) 2 > 1 \<and>
   R2C_ctor env2 both (mkBox (0, 0, 0) (7, 7, 0)) \<lparr>batch_mode = True\<rparr> 0 = Inl InvalidDomain"
  by (simp add: R2C_ctor_Inl R2C_checks_def box_defs)


lemma R2C_make_containers_frame [simp]:
  "m_info (R2C_make_containers env e) = m_info e"
  "m_real_domain (R2C_make_containers env e) = m_real_domain e"
  by (simp_all add: R2C_make_containers_def Let_def split: prod.splits)

lemma R2C_make_copiers_frame [simp]:
  "m_info (R2C_make_copiers e) = m_info e"
  "m_real_domain (R2C_make_copiers e) = m_real_domain e"
  by (simp_all add: R2C_make_copiers_def Let_def)

lemma R2C_plans_frame [simp]:
  "m_info (fst (R2C_plans_x env D e h)) = m_info e"
  "m_real_domain (fst (R2C_plans_x env D e h)) = m_real_domain e"
  "m_info (fst (R2C_plans_y env D e h)) = m_info e"
  "m_real_domain (fst (R2C_plans_y env D e h)) = m_real_domain e"
  "m_info (fst (R2C_plans_z env D e h)) = m_info e"
  "m_real_domain (fst (R2C_plans_z env D e h)) = m_real_domain e"
  by (simp_all add: R2C_plans_x_def R2C_plans_y_def R2C_plans_z_def Let_def split: prod.splits)

lemma R2C_ctor_Inr:
  assumes "R2C_ctor env D domain info h = Inr (e, h')"
  shows "R2C_checks domain info = None" and "m_info e = info" and "m_real_domain e = domain"
proof -
  show c: "R2C_checks domain info = None"
    using assms by (auto simp: R2C_ctor_def split: option.splits)
  let ?e0 = "R2C_make_copiers (R2C_make_containers env (R2C_members domain info))"
  let ?px = "R2C_plans_x env D ?e0 h"
  let ?py = "R2C_plans_y env D (fst ?px) (snd ?px)"
  let ?pz = "R2C_plans_z env D (fst ?py) (snd ?py)"
  have "e = fst ?pz"
    using assms c by (simp add: R2C_ctor_def Let_def split_beta)
  then show "m_info e = info" and "m_real_domain e = domain"
    by (simp_all add: R2C_members_def)
qed

lemma R2C_forward_no_callback: "filter is_Callback (R2C_forward e) = []"
  by (simp add: R2C_forward_def)

lemma R2C_backward_no_callback: "filter is_Callback (R2C_backward_doit e) = []"
  by (simp add: R2C_backward_doit_def)

text \<open>
  C10. An engine constructed in batch mode aborts in the post-forward step of
  \<open>forwardThenBackward\<close>: the run is the forward transform alone, it holds no call of the
  user's function, and it ends with the abort.
\<close>

theorem R2C_batch_forwardThenBackward_aborts:
  assumes "R2C_ctor env D domain info h = Inr (e, h')" and "batch_mode info"
  shows "R2C_forwardThenBackward env' e =
           (R2C_forward e, Some (Abort ''xxxxx todo: post_forward'')) \<and>
         filter is_Callback (fst (R2C_forwardThenBackward env' e)) = []"
proof -
  from R2C_ctor_Inr(2) [OF assms(1)] assms(2) have "batch_mode (m_info e)" by simp
  then have "R2C_post_forward_doit env' e = Inl (Abort ''xxxxx todo: post_forward'')"
    by (simp add: R2C_post_forward_doit_def)
  then show ?thesis
    by (simp add: R2C_forwardThenBackward_def R2C_forward_no_callback)
qed

lemma R2C_ctor_884_batch:
  "R2C_ctor env2 both (mkBox (0, 0, 0) (7, 7, 3)) \<lparr>batch_mode = True\<rparr> 0 = Inr (e, h') \<Longrightarrow>
     R2C_forward e = [CopyIn RX, Compute_r2c forward (Some 0), ParallelCopy CY CX,
                      Compute_c2c forward (Some 2), Compute_c2c forward None]"
  by (auto simp add: R2C_ctor_defs box_defs fa_defs env_defs Let_def R2C_forward_def)

theorem R2C_batch_forwardThenBackward_aborts_witness:
  "\<exists>e h'. R2C_ctor env2 both (mkBox (0, 0, 0) (7, 7, 3)) \<lparr>batch_mode = True\<rparr> 0 = Inr (e, h') \<and>
     R2C_forwardThenBackward env2 e =
       ([CopyIn RX, Compute_r2c forward (Some 0), ParallelCopy CY CX,
         Compute_c2c forward (Some 2), Compute_c2c forward None],
        Some (Abort ''xxxxx todo: post_forward''))"
proof -
  have "R2C_checks (mkBox (0, 0, 0) (7, 7, 3)) \<lparr>batch_mode = True\<rparr> = None"
    by (simp add: R2C_checks_def box_defs)
  then obtain e h' where
    e: "R2C_ctor env2 both (mkBox (0, 0, 0) (7, 7, 3)) \<lparr>batch_mode = True\<rparr> 0 = Inr (e, h')"
    using R2C_ctor_succeeds by blast
  from R2C_batch_forwardThenBackward_aborts [OF e, of env2] R2C_ctor_884_batch [OF e] e
  show ?thesis by (intro exI [of _ e] exI [of _ h']) simp
qed

text \<open>
  Which spectral arrays an engine has, when \<open>decompose\<close> returns at least one box: \<open>m_cy\<close>
  exactly when \<open>N1 > 1\<close>, and \<open>m_cz\<close> exactly when moreover \<open>N2 > 1\<close> without batch mode.
\<close>

lemma R2C_plans_arrays [simp]:
  "m_cy (fst (R2C_plans_x env D e h)) = m_cy e"
  "m_cz (fst (R2C_plans_x env D e h)) = m_cz e"
  "m_cy (fst (R2C_plans_y env D e h)) = m_cy e"
  "m_cz (fst (R2C_plans_y env D e h)) = m_cz e"
  "m_cy (fst (R2C_plans_z env D e h)) = m_cy e"
  "m_cz (fst (R2C_plans_z env D e h)) = m_cz e"
  by (simp_all add: R2C_plans_x_def R2C_plans_y_def R2C_plans_z_def Let_def split: prod.splits)

lemma R2C_make_copiers_arrays [simp]:
  "m_cy (R2C_make_copiers e) = m_cy e" "m_cz (R2C_make_copiers e) = m_cz e"
  by (simp_all add: R2C_make_copiers_def Let_def)

lemma R2C_ctor_arrays:
  assumes "R2C_ctor env D domain info h = Inr (e, h')"
    and "\<And>b n ds. decompose env b n ds \<noteq> []"
  shows "\<not> empty_fa (m_cy e) \<longleftrightarrow> length_box domain 1 > 1"
    and "\<not> empty_fa (m_cz e) \<longleftrightarrow>
           length_box domain 1 > 1 \<and> length_box domain 2 > 1 \<and> \<not> batch_mode info"
proof -
  have c: "R2C_checks domain info = None"
    using assms(1) by (auto simp: R2C_ctor_def split: option.splits)
  let ?e0 = "R2C_make_copiers (R2C_make_containers env (R2C_members domain info))"
  let ?px = "R2C_plans_x env D ?e0 h"
  let ?py = "R2C_plans_y env D (fst ?px) (snd ?px)"
  let ?pz = "R2C_plans_z env D (fst ?py) (snd ?py)"
  have e: "e = fst ?pz"
    using assms(1) c by (simp add: R2C_ctor_def Let_def split_beta)
  show "\<not> empty_fa (m_cy e) \<longleftrightarrow> length_box domain 1 > 1"
    unfolding e using assms(2)
    by (simp add: R2C_make_containers_def R2C_members_def Let_def empty_fa_def define_fa_def
        FabArray_default_def split: prod.splits)
  show "\<not> empty_fa (m_cz e) \<longleftrightarrow>
          length_box domain 1 > 1 \<and> length_box domain 2 > 1 \<and> \<not> batch_mode info"
    unfolding e using assms(2)
    by (auto simp add: R2C_make_containers_def R2C_members_def Let_def empty_fa_def define_fa_def
        FabArray_default_def split: prod.splits)
qed

subsection \<open>The post-forward callback\<close>

lemma distinct_concat_map:
  "distinct xs \<Longrightarrow> (\<And>x. x \<in> set xs \<Longrightarrow> distinct (f x)) \<Longrightarrow>
   (\<And>x y. x \<in> set xs \<Longrightarrow> y \<in> set xs \<Longrightarrow> x \<noteq> y \<Longrightarrow> set (f x) \<inter> set (f y) = {}) \<Longrightarrow>
   distinct (concat (map f xs))"
  by (induction xs) auto

lemma distinct_cells: "distinct (cells bx)"
  unfolding cells_def
  by (intro distinct_concat_map) (auto simp: distinct_map inj_on_def)

lemma set_cells: "set (cells bx) = {c. contains bx c}"
proof -
  have "(i, j, k) \<in> set (cells bx) \<longleftrightarrow> contains bx (i, j, k)" for i j k
    by (simp add: cells_def contains_def image_iff)
  then show ?thesis by auto
qed

lemma map_filter_app: "List.map_filter f (xs @ ys) = List.map_filter f xs @ List.map_filter f ys"
  by (induction xs) (auto split: option.splits)

lemma map_filter_of_map: "List.map_filter f (map g xs) = List.map_filter (\<lambda>x. f (g x)) xs"
  by (induction xs) (auto split: option.splits)

lemma map_filter_single:
  "distinct xs \<Longrightarrow>
   List.map_filter (\<lambda>x. if P \<and> x = c then Some (g x) else None) xs =
     (if P \<and> c \<in> set xs then [g c] else [])"
  by (induction xs) auto

lemma calls_on_append: "calls_on a c (xs @ ys) = calls_on a c xs @ calls_on a c ys"
  by (simp add: calls_on_def map_filter_app)

lemma calls_on_ParallelFor:
  "calls_on a c (ParallelFor bx (\<lambda>i j k. Callback (F i j k) a' (i, j, k))) =
     (if a' = a \<and> contains bx c then [case c of (i, j, k) \<Rightarrow> F i j k] else [])"
proof -
  let ?g = "\<lambda>x. F (fst x) (fst (snd x)) (snd (snd x))"
  have "calls_on a c (ParallelFor bx (\<lambda>i j k. Callback (F i j k) a' (i, j, k))) =
        List.map_filter (\<lambda>x. if a' = a \<and> x = c then Some (?g x) else None) (cells bx)"
    by (simp add: calls_on_def ParallelFor_def map_filter_of_map split_beta)
  also have "\<dots> = (if a' = a \<and> c \<in> set (cells bx) then [?g c] else [])"
    by (rule map_filter_single [OF distinct_cells])
  finally show ?thesis by (simp add: set_cells split_beta)
qed

lemma calls_on_R2C_forward [simp]: "calls_on a c (R2C_forward e) = []"
  by (simp add: calls_on_def R2C_forward_def)

lemma calls_on_R2C_backward [simp]: "calls_on a c (R2C_backward_doit e) = []"
  by (simp add: calls_on_def R2C_backward_doit_def)

lemma calls_on_Nil [simp]: "calls_on a c [] = []"
  by (simp add: calls_on_def)


lemma calls_on_local:
  "calls_on a c (case get_fab env fa of None \<Rightarrow> []
                 | Some bx \<Rightarrow> ParallelFor bx (\<lambda>i j k. Callback (F i j k) a' (i, j, k))) =
     (if a = a' \<and> local_cell env fa c then [case c of (i, j, k) \<Rightarrow> F i j k] else [])"
  by (auto simp: local_cell_def calls_on_ParallelFor split: option.splits)

lemma is_Callback_ParallelFor:
  "filter is_Callback (ParallelFor bx (\<lambda>i j k. Callback (F i j k) a (G i j k))) =
     ParallelFor bx (\<lambda>i j k. Callback (F i j k) a (G i j k))"
  by (simp add: ParallelFor_def filter_map comp_def split_beta)

lemma R2C_forwardThenBackward_run:
  assumes "\<not> batch_mode (m_info e)"
  shows "R2C_forwardThenBackward env e =
     (R2C_forward e @
      (if \<not> empty_fa (m_cz e)
       then (case get_fab env (m_cz e) of None \<Rightarrow> []
             | Some bx \<Rightarrow> ParallelFor bx (\<lambda>iz jx ky. Callback (jx, ky, iz) CZ (iz, jx, ky)))
       else if \<not> empty_fa (m_cy e)
       then (case get_fab env (m_cy e) of None \<Rightarrow> []
             | Some bx \<Rightarrow> ParallelFor bx (\<lambda>iy jx k. Callback (jx, iy, k) CY (iy, jx, k)))
       else (case get_fab env (m_cx e) of None \<Rightarrow> []
             | Some bx \<Rightarrow> ParallelFor bx (\<lambda>i j k. Callback (i, j, k) CX (i, j, k)))) @
      R2C_backward_doit e, None)"
  using assms
  by (simp add: R2C_forwardThenBackward_def R2C_post_forward_doit_def split: option.splits)

text \<open>
  C5. Without batch mode \<open>forwardThenBackward\<close> runs the forward transform, then calls the
  user's function, then runs the backward transform. On each rank the function is called
  exactly once for every cell of the rank's part of the innermost spectral array, and for
  nothing else: on the cell \<open>(iz, jx, ky)\<close> of \<open>m_cz\<close> with the indices \<open>(jx, ky, iz)\<close> in
  three dimensions, on the cell \<open>(iy, jx, k)\<close> of \<open>m_cy\<close> with \<open>(jx, iy, k)\<close> in two, and on
  the cell \<open>(i, j, k)\<close> of \<open>m_cx\<close> with \<open>(i, j, k)\<close> in one.
\<close>

theorem R2C_callback_once_canonical:
  assumes "\<not> batch_mode (m_info e)"
  shows "(\<exists>calls. R2C_forwardThenBackward env e =
                    (R2C_forward e @ calls @ R2C_backward_doit e, None) \<and>
                  filter is_Callback calls = calls) \<and>
         (\<not> empty_fa (m_cz e) \<longrightarrow>
            (\<forall>a iz jx ky. calls_on a (iz, jx, ky) (fst (R2C_forwardThenBackward env e)) =
               (if a = CZ \<and> local_cell env (m_cz e) (iz, jx, ky) then [(jx, ky, iz)] else []))) \<and>
         (empty_fa (m_cz e) \<and> \<not> empty_fa (m_cy e) \<longrightarrow>
            (\<forall>a iy jx k. calls_on a (iy, jx, k) (fst (R2C_forwardThenBackward env e)) =
               (if a = CY \<and> local_cell env (m_cy e) (iy, jx, k) then [(jx, iy, k)] else []))) \<and>
         (empty_fa (m_cz e) \<and> empty_fa (m_cy e) \<longrightarrow>
            (\<forall>a i j k. calls_on a (i, j, k) (fst (R2C_forwardThenBackward env e)) =
               (if a = CX \<and> local_cell env (m_cx e) (i, j, k) then [(i, j, k)] else [])))"
proof -
  note run = R2C_forwardThenBackward_run [OF assms, of env]
  have 1: "\<exists>calls. R2C_forwardThenBackward env e =
                    (R2C_forward e @ calls @ R2C_backward_doit e, None) \<and>
                  filter is_Callback calls = calls"
    unfolding run by (auto simp: is_Callback_ParallelFor split: option.splits)
  have 2: "calls_on a c (fst (R2C_forwardThenBackward env e)) =
             (if a = CZ \<and> local_cell env (m_cz e) c then [case c of (iz, jx, ky) \<Rightarrow> (jx, ky, iz)]
              else [])"
    if "\<not> empty_fa (m_cz e)" for a c
    unfolding run using that by (simp add: calls_on_append calls_on_local)
  have 3: "calls_on a c (fst (R2C_forwardThenBackward env e)) =
             (if a = CY \<and> local_cell env (m_cy e) c then [case c of (iy, jx, k) \<Rightarrow> (jx, iy, k)]
              else [])"
    if "empty_fa (m_cz e)" "\<not> empty_fa (m_cy e)" for a c
    unfolding run using that by (simp add: calls_on_append calls_on_local)
  have 4: "calls_on a c (fst (R2C_forwardThenBackward env e)) =
             (if a = CX \<and> local_cell env (m_cx e) c then [case c of (i, j, k) \<Rightarrow> (i, j, k)]
              else [])"
    if "empty_fa (m_cz e)" "empty_fa (m_cy e)" for a c
    unfolding run using that by (simp add: calls_on_append calls_on_local)
  show ?thesis
    using 1 2 3 4 by simp
qed

lemma R2C_ctor_422:
  "R2C_ctor env2 both (mkBox (0, 0, 0) (3, 1, 1)) \<lparr>batch_mode = False\<rparr> 0 = Inr (e, h') \<Longrightarrow>
     \<not> batch_mode (m_info e) \<and>
     boxArray (m_cz e) = [mkBox (0, 0, 0) (1, 2, 0), mkBox (0, 0, 1) (1, 2, 1)]"
  by (auto simp add: R2C_ctor_defs box_defs fa_defs env_defs Let_def)

theorem R2C_callback_once_canonical_witness:
  "\<exists>e h'. R2C_ctor env2 both (mkBox (0, 0, 0) (3, 1, 1)) \<lparr>batch_mode = False\<rparr> 0 = Inr (e, h') \<and>
     boxArray (m_cz e) = [mkBox (0, 0, 0) (1, 2, 0), mkBox (0, 0, 1) (1, 2, 1)] \<and>
     calls_on CZ (1, 2, 0) (fst (R2C_forwardThenBackward env2 e)) = [(2, 0, 1)] \<and>
     calls_on CZ (1, 2, 1) (fst (R2C_forwardThenBackward env2 e)) = [] \<and>
     calls_on CX (1, 2, 0) (fst (R2C_forwardThenBackward env2 e)) = [] \<and>
     snd (R2C_forwardThenBackward env2 e) = None"
proof -
  have "R2C_checks (mkBox (0, 0, 0) (3, 1, 1)) \<lparr>batch_mode = False\<rparr> = None"
    by (simp add: R2C_checks_def box_defs)
  then obtain e h' where
    e: "R2C_ctor env2 both (mkBox (0, 0, 0) (3, 1, 1)) \<lparr>batch_mode = False\<rparr> 0 = Inr (e, h')"
    using R2C_ctor_succeeds by blast
  note v = R2C_ctor_422 [OF e]
  from v have b: "\<not> batch_mode (m_info e)" by simp
  have l: "local_cell env2 (m_cz e) (1, 2, 0)" "\<not> local_cell env2 (m_cz e) (1, 2, 1)"
    "\<not> empty_fa (m_cz e)"
    using v by (simp_all add: local_cell_def get_fab_def size_fa_def empty_fa_def env2_def
        contains_def box_defs)
  from R2C_callback_once_canonical [OF b, of env2] l v e
  show ?thesis by (intro exI [of _ e] exI [of _ h']) auto
qed

text \<open>
  Across the ranks: rank \<open>r\<close> owns box \<open>r\<close>, so when the boxes of the innermost spectral
  array partition the spectral domain (the contract of \<open>decompose\<close>), every cell of the
  domain is local to exactly one rank.
\<close>

lemma local_cell_rank:
  "local_cell (env\<lparr>MyProcSub := r\<rparr>) fa c \<longleftrightarrow> r < size_fa fa \<and> contains (boxArray fa ! r) c"
  by (simp add: local_cell_def get_fab_def)

lemma local_cell_unique_rank:
  assumes "\<And>c. contains sd c \<longleftrightarrow> (\<exists>!i. i < size_fa fa \<and> contains (boxArray fa ! i) c)"
    and "contains sd c"
  shows "\<exists>!r. local_cell (env\<lparr>MyProcSub := r\<rparr>) fa c"
  using assms by (simp add: local_cell_rank)

subsection \<open>The layout of the spectral data\<close>

lemma swap3_rotate: "swap3 (swap3 v 0 (Suc 0)) (Suc 0) 2 = RotateBackward v"
  by (cases v) (simp add: swap3_def RotateBackward_def)

lemma swap3_Swap01: "swap3 v 0 (Suc 0) = Swap01 v"
  by (cases v) (simp add: swap3_def Swap01_def)

lemma R2C_layout_3d:
  "\<not> empty_fa (m_cz e) \<Longrightarrow>
   R2C_getSpectralDataLayout e =
     (map (unpermute_box RotateBackward) (boxArray (m_cz e)), DistributionMap (m_cz e))"
  by (simp add: R2C_getSpectralDataLayout_def unpermute_box_def Let_def swap3_rotate)

lemma R2C_layout_2d:
  "empty_fa (m_cz e) \<Longrightarrow> \<not> empty_fa (m_cy e) \<Longrightarrow>
   R2C_getSpectralDataLayout e = (boxArray (m_cx e), DistributionMap (m_cx e))"
  by (simp add: R2C_getSpectralDataLayout_def)

text \<open>What the branch for two dimensions computes when it is taken.\<close>

lemma R2C_layout_swap_branch:
  "map (\<lambda>b. let lo = swap3 (smallend b) 0 1; hi = swap3 (bigend b) 0 1
            in b\<lparr>smallend := lo, bigend := hi\<rparr>) bs = map (unpermute_box Swap01) bs"
  by (simp add: unpermute_box_def Let_def swap3_Swap01)

lemma R2C_layout_1d:
  "empty_fa (m_cz e) \<Longrightarrow> empty_fa (m_cy e) \<Longrightarrow>
   R2C_getSpectralDataLayout e = ([], DistributionMap (m_cy e))"
  by (simp add: R2C_getSpectralDataLayout_def empty_fa_def)

lemma R2C_ctor_881:
  "R2C_ctor env2 both (mkBox (0, 0, 0) (7, 7, 0)) \<lparr>batch_mode = False\<rparr> 0 = Inr (e, h') \<Longrightarrow>
     boxArray (m_cx e) = [mkBox (0, 0, 0) (4, 3, 0), mkBox (0, 4, 0) (4, 7, 0)] \<and>
     boxArray (m_cy e) = [mkBox (0, 0, 0) (7, 1, 0), mkBox (0, 2, 0) (7, 4, 0)] \<and>
     boxArray (m_cz e) = []"
  by (auto simp add: R2C_ctor_defs box_defs fa_defs env_defs Let_def)

text \<open>
  C2. On the domain \<open>8 \<times> 8 \<times> 1\<close> over two ranks the engine has \<open>m_cy\<close> and no \<open>m_cz\<close>, and
  \<open>getSpectralDataLayout()\<close> returns the boxes of \<open>m_cx\<close> unchanged; they are not the boxes
  of \<open>m_cy\<close> with their first two axes swapped back.
\<close>

theorem R2C_layout_2d_returns_cx:
  "\<exists>e h'. R2C_ctor env2 both (mkBox (0, 0, 0) (7, 7, 0)) \<lparr>batch_mode = False\<rparr> 0 = Inr (e, h') \<and>
     \<not> empty_fa (m_cy e) \<and> empty_fa (m_cz e) \<and>
     fst (R2C_getSpectralDataLayout e) = boxArray (m_cx e) \<and>
     fst (R2C_getSpectralDataLayout e) = [mkBox (0, 0, 0) (4, 3, 0), mkBox (0, 4, 0) (4, 7, 0)] \<and>
     map (unpermute_box Swap01) (boxArray (m_cy e)) =
       [mkBox (0, 0, 0) (1, 7, 0), mkBox (2, 0, 0) (4, 7, 0)] \<and>
     fst (R2C_getSpectralDataLayout e) \<noteq> map (unpermute_box Swap01) (boxArray (m_cy e))"
proof -
  have "R2C_checks (mkBox (0, 0, 0) (7, 7, 0)) \<lparr>batch_mode = False\<rparr> = None"
    by (simp add: R2C_checks_def box_defs)
  then obtain e h' where
    e: "R2C_ctor env2 both (mkBox (0, 0, 0) (7, 7, 0)) \<lparr>batch_mode = False\<rparr> 0 = Inr (e, h')"
    using R2C_ctor_succeeds by blast
  note v = R2C_ctor_881 [OF e]
  then have l: "empty_fa (m_cz e)" "\<not> empty_fa (m_cy e)"
    by (simp_all add: empty_fa_def)
  from v e R2C_layout_2d [OF l] show ?thesis
    by (intro exI [of _ e] exI [of _ h'])
      (simp add: l unpermute_box_def Swap01_def mkBox_def)
qed

section \<open>Properties of the Poisson solvers\<close>

lemma PoissonHybrid_ctor_Inr:
  "(\<exists>p h'. PoissonHybrid_ctor env geom h = Inr (p, h')) \<longleftrightarrow>
     R2C_checks (Domain_g geom) \<lparr>batch_mode = True\<rparr> = None \<and>
     at3 (isPeriodic geom) 0 \<and> at3 (isPeriodic geom) 1"
proof (cases "R2C_checks (Domain_g geom) \<lparr>batch_mode = True\<rparr>")
  case None
  then obtain e h' where "R2C_ctor env both (Domain_g geom) \<lparr>batch_mode = True\<rparr> h = Inr (e, h')"
    using R2C_ctor_succeeds by blast
  with None show ?thesis by (simp add: PoissonHybrid_ctor_def)
next
  case (Some err)
  then have "R2C_ctor env both (Domain_g geom) \<lparr>batch_mode = True\<rparr> h = Inl err"
    by (simp add: R2C_ctor_Inl)
  with Some show ?thesis by (simp add: PoissonHybrid_ctor_def)
qed

text \<open>
  C9, as the code has it. The constructor of PoissonHybrid does not read the cell sizes:
  on a geometry changed in its cell sizes only (to zero along z, for one) it fails with
  the same error or returns the same engine and the same next vendor handle, with the
  changed geometry stored. So a cell size is never the reason of a rejection.
\<close>

theorem PoissonHybrid_ctor_ignores_cell_size:
  "PoissonHybrid_ctor env (geom\<lparr>CellSize := dx\<rparr>) h =
     map_sum id (\<lambda>(p, h'). (p\<lparr>m_geom_h := geom\<lparr>CellSize := dx\<rparr>\<rparr>, h'))
       (PoissonHybrid_ctor env geom h)"
  by (auto simp: PoissonHybrid_ctor_def split: sum.splits)

text \<open>
  The claim C9 as stated fails: the geometry on \<open>8 \<times> 8 \<times> 4\<close>, periodic along x and y,
  with the cell size 0 along z is accepted, and the solve then divides by 0.
\<close>

theorem PoissonHybrid_accepts_zero_dz:
  "\<exists>p h'. PoissonHybrid_ctor env2
             \<lparr>Domain_g = mkBox (0, 0, 0) (7, 7, 3), CellSize = (1, 1, 0),
              isPeriodic = (True, True, False)\<rparr> 0 = Inr (p, h') \<and>
          at3 (CellSize (m_geom_h p)) 2 = 0 \<and>
          tridiag_divisor (PoissonHybrid_delzv p) 0 1 = 0"
proof -
  let ?g = "\<lparr>Domain_g = mkBox (0, 0, 0) (7, 7, 3), CellSize = (1, 1, 0),
              isPeriodic = (True, True, False)\<rparr>"
  have "\<exists>p h'. PoissonHybrid_ctor env2 ?g 0 = Inr (p, h')"
    unfolding PoissonHybrid_ctor_Inr by (simp add: R2C_checks_def box_defs)
  then obtain p h' where p: "PoissonHybrid_ctor env2 ?g 0 = Inr (p, h')" by blast
  then have "m_geom_h p = ?g"
    by (auto simp: PoissonHybrid_ctor_def split: sum.splits if_splits)
  with p show ?thesis
    by (intro exI [of _ p] exI [of _ h'])
      (simp add: PoissonHybrid_delzv_def tridiag_divisor_def box_defs)
qed

lemma Poisson_ctor_Inr:
  assumes "Poisson_ctor env geom bc h = Inr (p, h')"
  shows "R2X_ctor env (Domain_g geom) bc h = Inr (m_r2x p, h')"
    and "m_geom_p p = geom" and "m_bc_p p = bc"
  using assms by (auto simp: Poisson_ctor_def split: sum.splits)

lemma delta_T_code:
  "delta_T A b =
     (if fst b = odd_bc \<and> snd b = odd_bc then T_of_int A 1
      else if (fst b = odd_bc \<and> snd b = even_bc) \<or> (fst b = even_bc \<and> snd b = odd_bc)
      then T_half A else T_of_int A 0)"
  by (cases b; cases "fst b"; cases "snd b") (auto simp: delta_T_def)

lemma fac_T_code:
  assumes "\<not> one_periodic_end b"
  shows "fac_T A b N =
           (if fst b = periodic then T_mul A (T_div A (T_pi A) (T_of_int A N)) (T_of_int A 2)
            else T_div A (T_pi A) (T_of_int A N))"
  using assms by (cases b) (auto simp: fac_T_def one_periodic_end_def)

lemma Poisson_fac_eq:
  "Poisson_fac A p =
     (if fst (at3 (m_bc_p p) 0) = periodic
      then T_mul A (T_div A (T_pi A) (T_of_int A (length_box (Domain_g (m_geom_p p)) 0))) (T_of_int A 2)
      else T_div A (T_pi A) (T_of_int A (length_box (Domain_g (m_geom_p p)) 0)),
      if fst (at3 (m_bc_p p) 1) = periodic
      then T_mul A (T_div A (T_pi A) (T_of_int A (length_box (Domain_g (m_geom_p p)) 1))) (T_of_int A 2)
      else T_div A (T_pi A) (T_of_int A (length_box (Domain_g (m_geom_p p)) 1)),
      if fst (at3 (m_bc_p p) 2) = periodic
      then T_mul A (T_div A (T_pi A) (T_of_int A (length_box (Domain_g (m_geom_p p)) 2))) (T_of_int A 2)
      else T_div A (T_pi A) (T_of_int A (length_box (Domain_g (m_geom_p p)) 2)))"
  by (cases "fst (at3 (m_bc_p p) 0) = periodic"; cases "fst (at3 (m_bc_p p) 1) = periodic";
      cases "fst (at3 (m_bc_p p) 2) = periodic")
    (simp_all add: Poisson_fac_def upt_SPACEDIM)

lemma Poisson_offset_eq:
  "Poisson_offset A p =
     (delta_T A (at3 (m_bc_p p) 0), delta_T A (at3 (m_bc_p p) 1), delta_T A (at3 (m_bc_p p) 2))"
proof -
  define step where "step = (\<lambda>idim (offset :: 'a \<times> 'a \<times> 'a).
      if fst (at3 (m_bc_p p) idim) = odd_bc \<and> snd (at3 (m_bc_p p) idim) = odd_bc
      then set3 offset idim (T_of_int A 1)
      else if (fst (at3 (m_bc_p p) idim) = odd_bc \<and> snd (at3 (m_bc_p p) idim) = even_bc) \<or>
              (fst (at3 (m_bc_p p) idim) = even_bc \<and> snd (at3 (m_bc_p p) idim) = odd_bc)
      then set3 offset idim (T_half A)
      else offset)"
  let ?d = "\<lambda>d. delta_T A (at3 (m_bc_p p) d)"
  let ?z = "T_of_int A 0"
  have 0: "step 0 (?z, ?z, ?z) = (?d 0, ?z, ?z)"
    by (simp add: step_def delta_T_code [of A "at3 (m_bc_p p) 0"])
  have 1: "step (Suc 0) (?d 0, ?z, ?z) = (?d 0, ?d (Suc 0), ?z)"
    by (simp add: step_def delta_T_code [of A "at3 (m_bc_p p) (Suc 0)"])
  have 2: "step 2 (?d 0, ?d (Suc 0), ?z) = (?d 0, ?d (Suc 0), ?d 2)"
    by (simp add: step_def delta_T_code [of A "at3 (m_bc_p p) 2"])
  have "Poisson_offset A p = step 2 (step (Suc 0) (step 0 (?z, ?z, ?z)))"
    by (simp only: Poisson_offset_def step_def upt_SPACEDIM fold_simps comp_apply id_apply
        One_nat_def)
  then show ?thesis
    by (simp only: 0 1 2 One_nat_def)
qed

text \<open>
  C4. For a solver that the constructor built, and in whatever arithmetic the element
  type has, the callback of \<open>Poisson::solve\<close> computes the eigenvalue \<open>\<lambda>\<close> of the
  specification at the index it is given, divides the spectral value by \<open>\<lambda>\<close> when the
  \<open>\<lambda>\<close> it computed differs from zero and leaves the value as it is otherwise, and then
  multiplies it by the scaling factor of the engine.
\<close>

theorem Poisson_callback_symbol:
  assumes "Poisson_ctor env geom bc h = Inr (p, h')"
  shows "Poisson_callback A p i j k v =
           val_mul A
             (if T_ne A (lambda_T A geom bc (i, j, k)) (T_of_int A 0)
              then val_div A v (lambda_T A geom bc (i, j, k)) else v)
             (R2X_scalingFactor_T A (m_r2x p))"
proof -
  note P = Poisson_ctor_Inr [OF assms]
  obtain b0 b1 b2 where bc: "bc = (b0, b1, b2)" by (cases bc) auto
  from R2X_ctor_Inr(1) [OF P(1)]
  have v: "\<not> one_periodic_end b0" "\<not> one_periodic_end b1" "\<not> one_periodic_end b2"
    by (simp_all add: R2X_checks_None all_less_SPACEDIM bc)
  have fac: "Poisson_fac A p =
      (fac_T A b0 (length_box (Domain_g geom) 0), fac_T A b1 (length_box (Domain_g geom) 1),
       fac_T A b2 (length_box (Domain_g geom) 2))"
    unfolding Poisson_fac_eq P bc fac_T_code [OF v(1)] fac_T_code [OF v(2)]
        fac_T_code [OF v(3)] by simp
  have off: "Poisson_offset A p = (delta_T A b0, delta_T A b1, delta_T A b2)"
    by (simp add: Poisson_offset_eq P bc)
  define k2 where "k2 =
      T_add A (T_add A
        (T_mul A (at3 (Poisson_dxfac A p) 0)
           (T_sub A (T_cos A (T_mul A (at3 (Poisson_fac A p) 0)
              (T_add A (T_of_int A i) (at3 (Poisson_offset A p) 0)))) (T_of_int A 1)))
        (T_mul A (at3 (Poisson_dxfac A p) 1)
           (T_sub A (T_cos A (T_mul A (at3 (Poisson_fac A p) 1)
              (T_add A (T_of_int A j) (at3 (Poisson_offset A p) 1)))) (T_of_int A 1))))
        (T_mul A (at3 (Poisson_dxfac A p) 2)
           (T_sub A (T_cos A (T_mul A (at3 (Poisson_fac A p) 2)
              (T_add A (T_of_int A k) (at3 (Poisson_offset A p) 2)))) (T_of_int A 1)))"
  have lam: "lambda_T A geom bc (i, j, k) = k2"
    unfolding k2_def fac off
    by (simp add: lambda_T_def term_T_def alpha_T_def Poisson_dxfac_def P bc)
  have "Poisson_callback A p i j k v =
          val_mul A (if T_ne A k2 (T_of_int A 0) then val_div A v k2 else v)
            (R2X_scalingFactor_T A (m_r2x p))"
    unfolding k2_def Poisson_callback_def Let_def ..
  then show ?thesis
    unfolding lam .
qed

text \<open>
  In the arithmetic without rounding the symbol and the scaling factor are the real
  numbers of the specification.
\<close>

lemma lambda_T_exact: "lambda_T exact_ops geom bc idx = lambda_spec geom bc idx"
proof -
  have d: "delta_T exact_ops b = delta_spec b" for b
    by (simp add: delta_T_def delta_spec_def exact_ops_def)
  have f: "fac_T exact_ops b N = fac_spec b N" for b N
    by (simp add: fac_T_def fac_spec_def exact_ops_def)
  have a: "alpha_T exact_ops geom bc idx n = alpha_spec geom bc idx n" for n
    unfolding alpha_T_def alpha_spec_def d f by (simp add: exact_ops_def)
  show ?thesis
    unfolding lambda_T_def term_T_def a
    by (simp add: lambda_spec_def upt_SPACEDIM exact_ops_def power2_eq_square)
qed

lemma R2X_scalingFactor_T_exact: "R2X_scalingFactor_T exact_ops e = R2X_scalingFactor e"
  by (simp add: R2X_scalingFactor_T_def R2X_scalingFactor_def exact_ops_def Let_def)

theorem Poisson_callback_symbol_witness:
  "\<exists>p q h' h''.
     Poisson_ctor env2 geom_444 ((periodic, periodic), (even_bc, even_bc), (odd_bc, odd_bc)) 0
       = Inr (p, h') \<and>
     Poisson_callback exact_ops p 2 0 1 1 = - 1 / 1536 \<and>
     Poisson_callback exact_ops p 0 0 3 1 = - 1 / 1024 \<and>
     Poisson_ctor env2 geom_444 all_periodic 0 = Inr (q, h'') \<and>
     Poisson_callback exact_ops q 0 0 0 1 = 1 / 64 \<and>
     Poisson_callback exact_ops q 2 0 0 1 = - 1 / 256"
proof -
  let ?bc = "((periodic, periodic), (even_bc, even_bc), (odd_bc, odd_bc))"
  have "R2X_checks (Domain_g geom_444) ?bc = None"
    by (simp add: R2X_checks_def upt_SPACEDIM geom_444_def box_defs)
  then obtain e h' where e: "R2X_ctor env2 (Domain_g geom_444) ?bc 0 = Inr (e, h')"
    using R2X_ctor_succeeds by blast
  define p where "p = \<lparr>m_geom_p = geom_444, m_bc_p = ?bc, m_r2x = e\<rparr>"
  have p: "Poisson_ctor env2 geom_444 ?bc 0 = Inr (p, h')"
    by (simp add: Poisson_ctor_def e p_def)
  have sp: "R2X_scalingFactor_T exact_ops (m_r2x p) = 1 / 256"
    using R2X_ctor_Inr(2,3) [OF e]
    by (simp add: p_def R2X_scalingFactor_T_exact R2X_scalingFactor_def upt_SPACEDIM numPts_def
        geom_444_def box_defs)
  have lp: "lambda_T exact_ops geom_444 ?bc (2, 0, 1) = - 6"
    "lambda_T exact_ops geom_444 ?bc (0, 0, 3) = - 4"
    by (simp_all add: lambda_T_exact lambda_spec_def alpha_spec_def fac_spec_def delta_spec_def
        upt_SPACEDIM geom_444_def box_defs)
  have "R2X_checks (Domain_g geom_444) all_periodic = None"
    by (simp add: R2X_checks_def upt_SPACEDIM geom_444_def box_defs all_periodic_def)
  then obtain f h'' where f: "R2X_ctor env2 (Domain_g geom_444) all_periodic 0 = Inr (f, h'')"
    using R2X_ctor_succeeds by blast
  define q where "q = \<lparr>m_geom_p = geom_444, m_bc_p = all_periodic, m_r2x = f\<rparr>"
  have q: "Poisson_ctor env2 geom_444 all_periodic 0 = Inr (q, h'')"
    by (simp add: Poisson_ctor_def f q_def)
  have sq: "R2X_scalingFactor_T exact_ops (m_r2x q) = 1 / 64"
    using R2X_ctor_Inr(2,3) [OF f]
    by (simp add: q_def R2X_scalingFactor_T_exact R2X_scalingFactor_def upt_SPACEDIM numPts_def
        geom_444_def box_defs all_periodic_def)
  have lq: "lambda_T exact_ops geom_444 all_periodic (0, 0, 0) = 0"
    "lambda_T exact_ops geom_444 all_periodic (2, 0, 0) = - 4"
    by (simp_all add: lambda_T_exact lambda_spec_def alpha_spec_def fac_spec_def delta_spec_def
        upt_SPACEDIM geom_444_def box_defs all_periodic_def)
  have ops: "T_ne exact_ops = (\<lambda>x y. x \<noteq> y)" "val_div exact_ops = (\<lambda>v t. v / t)"
    "val_mul exact_ops = (\<lambda>v t. v * t)" "T_of_int exact_ops = real_of_int"
    by (simp_all add: exact_ops_def)
  show ?thesis
    using p q Poisson_callback_symbol [OF p, of exact_ops 2 0 1 1]
      Poisson_callback_symbol [OF p, of exact_ops 0 0 3 1]
      Poisson_callback_symbol [OF q, of exact_ops 0 0 0 1]
      Poisson_callback_symbol [OF q, of exact_ops 2 0 0 1]
    by (intro exI [of _ p] exI [of _ q] exI [of _ h'] exI [of _ h'']) (simp add: sp lp sq lq ops)
qed

end
